theory Spec2Isabelle
  imports Complex_Main
begin

section \<open>Numbers and strings as the Python code uses them\<close>

text \<open>
  The scripts compute with Python floats that come from JSON decimals. The model uses
  exact rationals for them: comparisons and products are those of the decimal values,
  and the rounding error of binary floating point is not modelled.
  \<^verbatim>\<open>int(x)\<close> truncates towards zero.
\<close>

definition py_int :: "rat \<Rightarrow> int" where
  "py_int x = (if 0 \<le> x then \<lfloor>x\<rfloor> else \<lceil>x\<rceil>)"

definition is_digit :: "char \<Rightarrow> bool" where
  "is_digit c = (c \<in> set ''0123456789'')"

text \<open>
  The value of a decimal digit is its position in the string of the ten digits, and the
  character of a value below ten is the character at that position.
\<close>

definition digit_val :: "char \<Rightarrow> nat" where
  "digit_val c = length (takeWhile (\<lambda>d. d \<noteq> c) ''0123456789'')"

definition digit_char :: "nat \<Rightarrow> char" where
  "digit_char d = ''0123456789'' ! (d mod 10)"

text \<open>\<^verbatim>\<open>str(n)\<close> for a natural number, and \<^verbatim>\<open>int(s)\<close> for a string of digits.\<close>

fun str_nat :: "nat \<Rightarrow> string" where
  "str_nat n = (if n < 10 then [digit_char n] else str_nat (n div 10) @ [digit_char (n mod 10)])"

definition int_of_digits :: "string \<Rightarrow> nat" where
  "int_of_digits s = foldl (\<lambda>acc c. acc * 10 + digit_val c) 0 s"

text \<open>The format \<^verbatim>\<open>{n:03d}\<close>: decimal, padded with zeros on the left to three characters.\<close>

definition fmt_03d :: "nat \<Rightarrow> string" where
  "fmt_03d n = replicate (3 - length (str_nat n)) (CHR ''0'') @ str_nat n"

text \<open>
  The format \<^verbatim>\<open>{p:.0%}\<close>: the value times one hundred, rounded to an integer with ties
  to even, followed by a percent sign.
\<close>

definition round_half_even :: "rat \<Rightarrow> int" where
  "round_half_even x =
     (let f = \<lfloor>x\<rfloor>; r = x - of_int f
      in if r < 1 / 2 then f else if 1 / 2 < r then f + 1 else if even f then f else f + 1)"

definition fmt_percent0 :: "rat \<Rightarrow> string" where
  "fmt_percent0 p =
     (let r = round_half_even (p * 100)
      in (if p < 0 then ''-'' else '''') @ str_nat (nat \<bar>r\<bar>) @ ''%'')"

section \<open>Detections\<close>

record bbox =
  box_left :: rat
  box_top :: rat
  box_width :: rat
  box_height :: rat

record prediction =
  tagName :: string
  probability :: rat
  boundingBox :: bbox

text \<open>
  The dictionary that the detection provider returns: the list under the key
  \<^verbatim>\<open>predictions\<close> (\<open>None\<close> when the key is missing) and the names of its other keys.
\<close>

record provider_response =
  other_keys :: "string list"
  response_predictions :: "prediction list option"

section \<open>The extractor (extract\_hexagons.py)\<close>

text \<open>
  The crop rectangle of one prediction, lines 118 to 132 of \<^verbatim>\<open>extract_hexagons\<close>. The source
  writes the padding ratio as the literal \<^verbatim>\<open>0.1\<close>; \<open>crop_coords_with\<close> takes it as a
  parameter and \<open>crop_coords\<close> is the source's instance.
\<close>

definition crop_coords_with :: "rat \<Rightarrow> bbox \<Rightarrow> int \<Rightarrow> int \<Rightarrow> int \<times> int \<times> int \<times> int" where
  "crop_coords_with padding_ratio b img_width img_height =
     (let left = py_int (box_left b * of_int img_width);
          top = py_int (box_top b * of_int img_height);
          width = py_int (box_width b * of_int img_width);
          height = py_int (box_height b * of_int img_height);
          padding_x = py_int (of_int width * padding_ratio);
          padding_y = py_int (of_int height * padding_ratio);
          crop_left = max 0 (left - padding_x);
          crop_top = max 0 (top - padding_y);
          crop_right = min img_width (left + width + padding_x);
          crop_bottom = min img_height (top + height + padding_y)
      in (crop_left, crop_top, crop_right, crop_bottom))"

definition crop_coords :: "bbox \<Rightarrow> int \<Rightarrow> int \<Rightarrow> int \<times> int \<times> int \<times> int" where
  "crop_coords = crop_coords_with (1 / 10)"

text \<open>
  One file written by the extractor: its name, which carries the sequence number, the
  region cropped, and the prediction it was cut from.
\<close>

record artifact =
  hexagon_filename :: string
  crop_region :: "int \<times> int \<times> int \<times> int"
  source_prediction :: prediction

definition high_confidence_predictions :: "prediction list \<Rightarrow> rat \<Rightarrow> prediction list" where
  "high_confidence_predictions predictions confidence_threshold =
     filter (\<lambda>pred. confidence_threshold \<le> probability pred) predictions"

definition make_filename :: "nat \<Rightarrow> rat \<Rightarrow> string" where
  "make_filename i p = ''hexagon_'' @ fmt_03d (i + 1) @ ''_conf_'' @ fmt_percent0 p @ ''.png''"

definition extract_one :: "int \<Rightarrow> int \<Rightarrow> nat \<times> prediction \<Rightarrow> artifact" where
  "extract_one img_width img_height ip =
     (case ip of (i, pred) \<Rightarrow>
        \<lparr> hexagon_filename = make_filename i (probability pred),
          crop_region = crop_coords (boundingBox pred) img_width img_height,
          source_prediction = pred \<rparr>)"

text \<open>
  The loop over \<^verbatim>\<open>enumerate(high_confidence_predictions)\<close>. It runs inside the
  \<^verbatim>\<open>try\<close> block that wraps the whole function (lines 80 to 150): when cropping or saving
  one hexagon raises, the handler prints the error and the function ends, so the
  survivors after it get no file, and the files written before it stay. \<open>saves\<close> tells
  whether \<^verbatim>\<open>image.crop\<close> of a region and \<^verbatim>\<open>save\<close> under a name succeed; they do not for
  a region without pixels.
\<close>

fun extract_loop ::
  "(string \<Rightarrow> int \<times> int \<times> int \<times> int \<Rightarrow> bool) \<Rightarrow> int \<Rightarrow> int \<Rightarrow> (nat \<times> prediction) list \<Rightarrow> artifact list" where
  "extract_loop saves img_width img_height [] = []"
| "extract_loop saves img_width img_height (ip # rest) =
     (let a = extract_one img_width img_height ip
      in if saves (hexagon_filename a) (crop_region a)
         then a # extract_loop saves img_width img_height rest
         else [])"

text \<open>
  \<^verbatim>\<open>extract_hexagons\<close>: the files it writes, in the order it writes them. The response is
  \<open>None\<close> when the detection request failed, and the image size is \<open>None\<close> when
  \<^verbatim>\<open>Image.open\<close> raises; in both cases, and when the response has no \<^verbatim>\<open>predictions\<close> key,
  nothing is written.
\<close>

definition extract_hexagons ::
  "(string \<Rightarrow> int \<times> int \<times> int \<times> int \<Rightarrow> bool) \<Rightarrow> provider_response option \<Rightarrow> (int \<times> int) option \<Rightarrow> rat \<Rightarrow>
     artifact list" where
  "extract_hexagons saves response opened confidence_threshold =
     (case response of
        None \<Rightarrow> []
      | Some r \<Rightarrow>
          (case response_predictions r of
             None \<Rightarrow> []
           | Some preds \<Rightarrow>
               (case opened of
                  None \<Rightarrow> []
                | Some (img_width, img_height) \<Rightarrow>
                    extract_loop saves img_width img_height
                      (enumerate 0 (high_confidence_predictions preds confidence_threshold)))))"

text \<open>A region has pixels when its right is beyond its left and its bottom below its top.\<close>

definition nonempty_region :: "int \<times> int \<times> int \<times> int \<Rightarrow> bool" where
  "nonempty_region region =
     (case region of (crop_left, crop_top, crop_right, crop_bottom) \<Rightarrow>
        crop_left < crop_right \<and> crop_top < crop_bottom)"

section \<open>Validated hexagons (the dictionaries of the validation files)\<close>

text \<open>
  One entry of the validation JSON. A field is \<open>None\<close> when the dictionary has no such key;
  the scripts read every field with \<^verbatim>\<open>.get(key, default)\<close>.
\<close>

record hexagon_info =
  is_hexagon :: "bool option"
  upper_line :: "string option"
  lower_line :: "string option"
  image_file :: "string option"
  confidence :: "string option"
  raw_response :: "string option"
  reason :: "string option"

definition get_str :: "string option \<Rightarrow> string \<Rightarrow> string" where
  "get_str v dflt = (case v of None \<Rightarrow> dflt | Some s \<Rightarrow> s)"

definition get_bool :: "bool option \<Rightarrow> bool \<Rightarrow> bool" where
  "get_bool v dflt = (case v of None \<Rightarrow> dflt | Some b \<Rightarrow> b)"

section \<open>The reconciler (enhanced\_hexagon\_processor.py)\<close>

text \<open>
  \<^verbatim>\<open>re.search(r'hexagon_(\d+)', filename)\<close> and \<^verbatim>\<open>int(match.group(1))\<close>: the leftmost
  place where \<^verbatim>\<open>hexagon_\<close> is followed by a digit, and the value of the longest run of
  digits there. The digits are the ten ASCII digits.
\<close>

definition starts_with :: "string \<Rightarrow> string \<Rightarrow> bool" where
  "starts_with p s = (take (length p) s = p)"

fun extract_hexagon_number :: "string \<Rightarrow> nat option" where
  "extract_hexagon_number [] = None"
| "extract_hexagon_number (c # cs) =
     (if starts_with ''hexagon_'' (c # cs) \<and> takeWhile is_digit (drop 8 (c # cs)) \<noteq> []
      then Some (int_of_digits (takeWhile is_digit (drop 8 (c # cs))))
      else extract_hexagon_number cs)"

text \<open>The grouping key \<^verbatim>\<open>f"{upper}/{lower}"\<close>.\<close>

definition key_of :: "hexagon_info \<Rightarrow> string" where
  "key_of hexagon = get_str (upper_line hexagon) [] @ ''/'' @ get_str (lower_line hexagon) []"

text \<open>
  \<^verbatim>\<open>hexagon_counts[key].append(hexagon)\<close> on a \<^verbatim>\<open>defaultdict(list)\<close>: the dictionary keeps
  its keys in the order of their first insertion, so it is an association list.
\<close>

fun dict_append :: "string \<Rightarrow> hexagon_info \<Rightarrow> (string \<times> hexagon_info list) list \<Rightarrow> (string \<times> hexagon_info list) list" where
  "dict_append key h [] = [(key, [h])]"
| "dict_append key h ((k, hs) # rest) =
     (if k = key then (k, hs @ [h]) # rest else (k, hs) # dict_append key h rest)"

definition hexagon_counts :: "hexagon_info list \<Rightarrow> (string \<times> hexagon_info list) list" where
  "hexagon_counts true_hexagons = foldl (\<lambda>d h. dict_append (key_of h) h d) [] true_hexagons"

definition all_instances_of :: "hexagon_info list \<Rightarrow> (string \<times> nat \<times> hexagon_info list) list" where
  "all_instances_of true_hexagons =
     map (\<lambda>(key, hexagons). (key, length hexagons, hexagons)) (hexagon_counts true_hexagons)"

definition duplicates_of :: "hexagon_info list \<Rightarrow> (string \<times> nat \<times> hexagon_info list) list" where
  "duplicates_of true_hexagons =
     filter (\<lambda>(key, count, hexagons). 1 < count) (all_instances_of true_hexagons)"

text \<open>
  \<^verbatim>\<open>count_duplicate_hexagons\<close> ("Count duplicate hexagons with the same upper and lower
  lines"): the groups with more than one member; the empty dictionary when the file cannot
  be read.
\<close>

definition count_duplicate_hexagons ::
  "hexagon_info list option \<Rightarrow> (string \<times> nat \<times> hexagon_info list) list" where
  "count_duplicate_hexagons true_hexagons_json =
     (case true_hexagons_json of None \<Rightarrow> [] | Some true_hexagons \<Rightarrow> duplicates_of true_hexagons)"

record instance_report =
  total_hexagons :: nat
  unique_combinations :: nat
  all_instances :: "(string \<times> nat \<times> hexagon_info list) list"
  duplicates :: "(string \<times> nat \<times> hexagon_info list) list"
  summary :: "(string \<times> nat) list"

definition make_report :: "hexagon_info list \<Rightarrow> instance_report" where
  "make_report true_hexagons =
     \<lparr> total_hexagons = length true_hexagons,
       unique_combinations = length (remdups (map key_of true_hexagons)),
       all_instances = all_instances_of true_hexagons,
       duplicates = duplicates_of true_hexagons,
       summary = map (\<lambda>(key, count, hexagons). (key, count)) (all_instances_of true_hexagons) \<rparr>"

text \<open>
  The detection record that DCNE.py persists: the provider's whole response under the key
  \<^verbatim>\<open>predictions\<close>, which itself holds the list under its own key \<^verbatim>\<open>predictions\<close>.
\<close>

record detection_record =
  image_path :: string
  predictions :: provider_response
  total_detections :: nat

text \<open>
  \<^verbatim>\<open>for i, detection in enumerate(predictions, 1): detections[i] = detection.get('boundingBox', {})\<close>
\<close>

definition detections_of :: "detection_record option \<Rightarrow> (nat \<times> bbox) list" where
  "detections_of detection_data =
     (case detection_data of
        None \<Rightarrow> []
      | Some d \<Rightarrow>
          map (\<lambda>(i, detection). (i, boundingBox detection))
            (enumerate 1 (case response_predictions (predictions d) of None \<Rightarrow> [] | Some ps \<Rightarrow> ps)))"

definition py_fmod :: "rat \<Rightarrow> rat \<Rightarrow> rat" where
  "py_fmod x m = x - m * of_int \<lfloor>x / m\<rfloor>"

definition simplified_position :: "nat \<Rightarrow> bbox" where
  "simplified_position n =
     \<lparr> box_left = 1 / 10 + py_fmod (of_nat n * (5 / 100)) (8 / 10),
       box_top = 1 / 10 + py_fmod (of_nat n * (3 / 100)) (8 / 10),
       box_width = 4 / 100,
       box_height = 4 / 100 \<rparr>"

definition resolve_bbox :: "(nat \<times> bbox) list \<Rightarrow> nat \<Rightarrow> bbox" where
  "resolve_bbox detections n =
     (case map_of detections n of
        Some bbox \<Rightarrow> bbox
      | None \<Rightarrow> simplified_position n)"

record drawn_box =
  hexagon_number :: nat
  drawn_bbox :: bbox
  rectangle :: "int \<times> int \<times> int \<times> int"
  label_text :: string
  drawn_for :: hexagon_info

definition make_label :: "nat \<Rightarrow> hexagon_info \<Rightarrow> string" where
  "make_label n hexagon_data =
     (let upper_text = get_str (upper_line hexagon_data) [];
          lower_text = get_str (lower_line hexagon_data) []
      in ''#'' @ str_nat n @
         (if upper_text \<noteq> [] \<or> lower_text \<noteq> []
          then '' ('' @ upper_text @ ''/'' @ lower_text @ '')'' else []))"

definition draw_one :: "(nat \<times> bbox) list \<Rightarrow> int \<Rightarrow> int \<Rightarrow> hexagon_info \<Rightarrow> drawn_box option" where
  "draw_one detections original_width original_height hexagon_data =
     (case extract_hexagon_number (get_str (image_file hexagon_data) []) of
        None \<Rightarrow> None
      | Some n \<Rightarrow>
          (let bbox = resolve_bbox detections n;
               x1 = py_int (box_left bbox * of_int original_width);
               y1 = py_int (box_top bbox * of_int original_height);
               x2 = py_int ((box_left bbox + box_width bbox) * of_int original_width);
               y2 = py_int ((box_top bbox + box_height bbox) * of_int original_height)
           in Some \<lparr> hexagon_number = n, drawn_bbox = bbox, rectangle = (x1, y1, x2, y2),
                     label_text = make_label n hexagon_data, drawn_for = hexagon_data \<rparr>))"

text \<open>
  The loop over \<^verbatim>\<open>true_hexagons\<close>: a hexagon whose file name gives no number is skipped
  with \<^verbatim>\<open>continue\<close>; every other one is drawn and counted.
\<close>

fun draw_all :: "(nat \<times> bbox) list \<Rightarrow> int \<Rightarrow> int \<Rightarrow> hexagon_info list \<Rightarrow> drawn_box list" where
  "draw_all detections w h [] = []"
| "draw_all detections w h (hexagon_data # rest) =
     (case draw_one detections w h hexagon_data of
        None \<Rightarrow> draw_all detections w h rest
      | Some b \<Rightarrow> b # draw_all detections w h rest)"

record mapping_output =
  drawn :: "drawn_box list"
  mapped_count :: nat
  report :: instance_report

text \<open>
  What the reconciler finds at the path of the detection record: no file (no path given,
  or nothing there), a file that does not load as a record (\<^verbatim>\<open>json.load\<close> or one of the
  \<^verbatim>\<open>.get\<close> calls of lines 109 to 114 raises), or a record.
\<close>

datatype detection_file =
    No_detection_file
  | Malformed_detection_file
  | Detection_file detection_record

definition loaded_record :: "detection_file \<Rightarrow> detection_record option" where
  "loaded_record f = (case f of Detection_file d \<Rightarrow> Some d | _ \<Rightarrow> None)"

text \<open>
  The outcome of a call: \<^verbatim>\<open>False\<close> is returned when anything in the body raises, and
  then the annotated image may already have been saved (the argument of
  \<open>Returned_false\<close> holds its rectangles in that case); \<^verbatim>\<open>True\<close> is returned after the
  image and the report have been written.
\<close>

datatype mapping_result =
    Returned_false "drawn_box list option"
  | Returned_true mapping_output

definition succeeded :: "mapping_result \<Rightarrow> mapping_output option" where
  "succeeded r = (case r of Returned_true out \<Rightarrow> Some out | Returned_false partial \<Rightarrow> None)"

text \<open>
  \<^verbatim>\<open>map_true_hexagons_to_image\<close>. The whole body runs in one \<^verbatim>\<open>try\<close> block (lines 53 to
  211). The arguments give what the body meets, in the order in which it meets it: the
  size of the original image, \<open>None\<close> when \<^verbatim>\<open>Image.open\<close> raises; the list loaded from
  the true-hexagons file, \<open>None\<close> when the file cannot be read; the detection file;
  whether saving the annotated image as JPEG succeeds (it raises for an image whose mode
  JPEG cannot hold, such as RGBA or a palette, and for a path that cannot be written);
  and whether the report file can be written. The drawing calls are taken not to raise.
\<close>

definition map_true_hexagons_to_image ::
  "(int \<times> int) option \<Rightarrow> hexagon_info list option \<Rightarrow> detection_file \<Rightarrow> bool \<Rightarrow> bool \<Rightarrow>
     mapping_result" where
  "map_true_hexagons_to_image original_image true_hexagons_json detection_json image_saves report_saves =
     (case original_image of
        None \<Rightarrow> Returned_false None
      | Some (original_width, original_height) \<Rightarrow>
          (case true_hexagons_json of
             None \<Rightarrow> Returned_false None
           | Some true_hexagons \<Rightarrow>
               (if detection_json = Malformed_detection_file then Returned_false None
                else
                  (let detections = detections_of (loaded_record detection_json);
                       boxes = draw_all detections original_width original_height true_hexagons
                   in if \<not> image_saves then Returned_false None
                      else if \<not> report_saves then Returned_false (Some boxes)
                      else Returned_true \<lparr> drawn = boxes, mapped_count = length boxes,
                                           report = make_report true_hexagons \<rparr>))))"

section \<open>Annotation and filtering (DCNE.py)\<close>

datatype color = Green | Red

definition get_color_by_confidence :: "rat \<Rightarrow> color" where
  "get_color_by_confidence c = (if 7 / 10 \<le> c then Green else Red)"

record drawn_detection =
  det_rectangle :: "rat \<times> rat \<times> rat \<times> rat"
  outline :: color
  line_width :: int
  det_prediction :: prediction

definition draw_detection :: "int \<Rightarrow> int \<Rightarrow> rat \<Rightarrow> prediction \<Rightarrow> drawn_detection" where
  "draw_detection img_width img_height upscale_factor pred =
     (let b = boundingBox pred;
          left = box_left b * of_int img_width;
          top = box_top b * of_int img_height;
          width = box_width b * of_int img_width;
          height = box_height b * of_int img_height
      in \<lparr> det_rectangle = (left, top, left + width, top + height),
           outline = get_color_by_confidence (probability pred),
           line_width = max 3 (py_int (3 * upscale_factor)),
           det_prediction = pred \<rparr>)"

definition response_len :: "provider_response \<Rightarrow> nat" where
  "response_len r =
     length (other_keys r) + (case response_predictions r of None \<Rightarrow> 0 | Some ps \<Rightarrow> 1)"

text \<open>
  \<^verbatim>\<open>visualize_detections\<close>: the rectangles drawn on the saved image and the detection record
  written beside it. The first argument is the size of the image, \<open>None\<close> when it cannot
  be opened (the function then prints the error and writes nothing). The sharpening,
  contrast and brightness steps change pixels only and are left out.
\<close>

definition visualize_detections ::
  "(int \<times> int) option \<Rightarrow> string \<Rightarrow> provider_response \<Rightarrow> rat \<Rightarrow> rat \<Rightarrow>
     (drawn_detection list \<times> detection_record) option" where
  "visualize_detections opened path response confidence_threshold upscale_factor =
     (case opened of
        None \<Rightarrow> None
      | Some (original_width, original_height) \<Rightarrow>
          (let img_width = (if 1 < upscale_factor
                            then py_int (of_int original_width * upscale_factor)
                            else original_width);
               img_height = (if 1 < upscale_factor
                             then py_int (of_int original_height * upscale_factor)
                             else original_height);
               preds = (case response_predictions response of None \<Rightarrow> [] | Some ps \<Rightarrow> ps);
               boxes = map (draw_detection img_width img_height upscale_factor)
                         (filter (\<lambda>pred. confidence_threshold \<le> probability pred) preds)
           in Some (boxes,
                    \<lparr> image_path = path, predictions = response,
                      total_detections = response_len response \<rparr>)))"

section \<open>The validation wrapper (extract\_hexagon\_info.py)\<close>

fun after_first :: "string \<Rightarrow> string \<Rightarrow> string option" where
  "after_first sep [] = None"
| "after_first sep (c # cs) =
     (if starts_with sep (c # cs) then Some (drop (length sep) (c # cs)) else after_first sep cs)"

fun before_first :: "string \<Rightarrow> string \<Rightarrow> string" where
  "before_first sep [] = []"
| "before_first sep (c # cs) =
     (if starts_with sep (c # cs) then [] else c # before_first sep cs)"

text \<open>
  \<^verbatim>\<open>filename.split('conf_')[1].split('.')[0]\<close> when \<^verbatim>\<open>'conf_' in filename\<close>, else
  \<^verbatim>\<open>"unknown"\<close>.
\<close>

definition extract_confidence_from_filename :: "string \<Rightarrow> string" where
  "extract_confidence_from_filename filename =
     (case after_first ''conf_'' filename of
        None \<Rightarrow> ''unknown''
      | Some rest \<Rightarrow> before_first ''.'' (before_first ''conf_'' rest))"

definition is_space :: "char \<Rightarrow> bool" where
  "is_space c = (c \<in> set [CHR '' '', CHR 0x09, CHR 0x0A, CHR 0x0B, CHR 0x0C, CHR 0x0D,
                            CHR 0x1C, CHR 0x1D, CHR 0x1E, CHR 0x1F])"

definition strip :: "string \<Rightarrow> string" where
  "strip s = rev (dropWhile is_space (rev (dropWhile is_space s)))"

fun find_char :: "char \<Rightarrow> string \<Rightarrow> nat option" where
  "find_char c [] = None"
| "find_char c (x # xs) = (if x = c then Some 0 else map_option Suc (find_char c xs))"

definition rfind_char :: "char \<Rightarrow> string \<Rightarrow> nat option" where
  "rfind_char c s = map_option (\<lambda>i. length s - 1 - i) (find_char c (rev s))"

text \<open>What the provider call gave: the four ways \<^verbatim>\<open>extract_info_from_hexagon\<close> can go.\<close>

datatype provider_reply =
    EncodeFailed
  | RequestFailed
  | NoChoices
  | Content string

definition raw_placeholder :: "string \<Rightarrow> string \<Rightarrow> hexagon_info" where
  "raw_placeholder filename content =
     \<lparr> is_hexagon = None,
       upper_line = Some (strip content),
       lower_line = Some [],
       image_file = Some filename,
       confidence = Some (extract_confidence_from_filename filename),
       raw_response = Some content,
       reason = None \<rparr>"

text \<open>
  \<^verbatim>\<open>extract_info_from_hexagon\<close>. \<open>loads\<close> stands for \<^verbatim>\<open>json.loads\<close>: it gives the parsed
  dictionary, or \<open>None\<close> where it raises \<^verbatim>\<open>JSONDecodeError\<close>. The result \<open>None\<close> is the
  source's \<^verbatim>\<open>return None\<close>.
\<close>

definition extract_info_from_hexagon ::
  "(string \<Rightarrow> hexagon_info option) \<Rightarrow> string \<Rightarrow> provider_reply \<Rightarrow> hexagon_info option" where
  "extract_info_from_hexagon loads filename reply =
     (case reply of
        EncodeFailed \<Rightarrow> None
      | RequestFailed \<Rightarrow> None
      | NoChoices \<Rightarrow> None
      | Content content \<Rightarrow>
          (case (find_char (CHR ''{'') content, rfind_char (CHR ''}'') content) of
             (Some start_idx, Some last_idx) \<Rightarrow>
               (let end_idx = last_idx + 1;
                    json_str = take (end_idx - start_idx) (drop start_idx content)
                in case loads json_str of
                     None \<Rightarrow> Some (raw_placeholder filename content)
                   | Some extracted_info \<Rightarrow>
                       Some (extracted_info
                               \<lparr> image_file := Some filename,
                                 confidence := Some (extract_confidence_from_filename filename) \<rparr>))
           | _ \<Rightarrow> Some (raw_placeholder filename content)))"

datatype status_line =
    Ok_hexagon string string
  | Warn_not_hexagon string
  | Error_failed

definition status_of :: "hexagon_info option \<Rightarrow> status_line" where
  "status_of extracted_info =
     (case extracted_info of
        None \<Rightarrow> Error_failed
      | Some info \<Rightarrow>
          (if get_bool (is_hexagon info) True
           then Ok_hexagon (get_str (upper_line info) []) (get_str (lower_line info) [])
           else Warn_not_hexagon (get_str (reason info) ''No hexagon found'')))"

record folder_output =
  printed :: "status_line list"
  results_file :: "hexagon_info list option"
  true_hexagons_file :: "hexagon_info list option"

text \<open>
  \<^verbatim>\<open>process_hexagon_folder\<close>, given the sorted list of the folder's PNG files and the
  provider's reply for each. A file is \<open>None\<close> when the function does not write it.
\<close>

definition process_hexagon_folder ::
  "(string \<Rightarrow> hexagon_info option) \<Rightarrow> string list \<Rightarrow> (string \<Rightarrow> provider_reply) \<Rightarrow> folder_output" where
  "process_hexagon_folder loads hexagon_files reply =
     (if hexagon_files = [] then \<lparr> printed = [], results_file = None, true_hexagons_file = None \<rparr>
      else
        (let infos = map (\<lambda>f. extract_info_from_hexagon loads f (reply f)) hexagon_files;
             results = concat (map (\<lambda>i. case i of None \<Rightarrow> [] | Some info \<Rightarrow> [info]) infos);
             true_hexagons = filter (\<lambda>result. get_bool (is_hexagon result) False) results
         in if results \<noteq> []
            then \<lparr> printed = map status_of infos, results_file = Some results,
                   true_hexagons_file = Some true_hexagons \<rparr>
            else \<lparr> printed = map status_of infos, results_file = None,
                   true_hexagons_file = None \<rparr>))"

section \<open>The orchestrator (hexagon\_detection\_app.py)\<close>

datatype step = Detection | Extraction | Validation | Mapping

definition step_index :: "step \<Rightarrow> nat" where
  "step_index st = (case st of Detection \<Rightarrow> 0 | Extraction \<Rightarrow> 1 | Validation \<Rightarrow> 2 | Mapping \<Rightarrow> 3)"

text \<open>
  The keys of \<^verbatim>\<open>st.session_state\<close> that \<^verbatim>\<open>main\<close> reads and writes. \<open>processing_status\<close>
  is \<open>None\<close> until the script creates it; each step has a pair (completed, time).
\<close>

record session_state =
  processing_started :: bool
  processing_completed :: bool
  processing_halted :: bool
  current_step :: nat
  completed_steps :: "nat list"
  processing_status :: "(step \<Rightarrow> bool \<times> rat) option"
  has_processing_results :: bool

text \<open>
  What the world does during one run of the script: whether each stage's subprocess
  succeeds, how long it takes, and whether the user clicks Stop while it runs. The script
  blocks in the subprocess call, so a stage that has started runs to its end. Streamlit
  delivers the click by stopping the script at the next Streamlit call that the script
  makes and running it again with the Stop button pressed. Which call that is depends on
  Streamlit: \<open>stops_at_state_read\<close> is true when the read of
  \<^verbatim>\<open>st.session_state.processing_started\<close> right after the stage call already stops the
  script, and false when only the next display call (\<^verbatim>\<open>st.success\<close> or \<^verbatim>\<open>st.error\<close>) does.
\<close>

record environment =
  stage_succeeds :: "step \<Rightarrow> bool"
  stage_time :: "step \<Rightarrow> rat"
  stop_clicked_during :: "step \<Rightarrow> bool"
  stops_at_state_read :: bool

datatype click = No_click | Click_start | Click_stop | Click_again

text \<open>
  How a run of the script ends: it reaches its last line, it calls \<^verbatim>\<open>st.rerun()\<close>, it is
  stopped by Streamlit to deliver a click on Stop, or it reads a local variable
  (\<^verbatim>\<open>detection_result\<close>, \<^verbatim>\<open>extraction_result\<close>, ...) that this run never assigned.
  \<open>assigned\<close> lists the stages whose result variable this run has assigned: the results
  are local variables of \<^verbatim>\<open>main\<close>, so every run starts with none.
\<close>

datatype ending = Finished | Rerun | Stopped_for_click | Name_error

record run_state =
  session :: session_state
  invoked :: "step list"
  assigned :: "step list"

definition halt_writes :: "session_state \<Rightarrow> session_state" where
  "halt_writes s =
     s\<lparr> processing_started := False, processing_completed := False, processing_halted := True \<rparr>"

definition call_stage :: "step \<Rightarrow> run_state \<Rightarrow> run_state" where
  "call_stage st rs = rs\<lparr> invoked := invoked rs @ [st], assigned := assigned rs @ [st] \<rparr>"

definition record_success :: "environment \<Rightarrow> step \<Rightarrow> run_state \<Rightarrow> run_state" where
  "record_success env st rs =
     rs\<lparr> session :=
          (session rs)\<lparr> processing_status :=
                           map_option (\<lambda>f. f(st := (True, stage_time env st)))
                             (processing_status (session rs)),
                         completed_steps := completed_steps (session rs) @ [step_index st] \<rparr> \<rparr>"

text \<open>
  The lines after a stage call: the read of \<^verbatim>\<open>processing_started\<close>, then on success the
  writes of the status and of \<^verbatim>\<open>completed_steps\<close> followed by \<^verbatim>\<open>st.success\<close>, and on failure
  \<^verbatim>\<open>st.error\<close> followed by the writes of the halted state and \<^verbatim>\<open>st.rerun()\<close>. When Stop was
  clicked during the call, the script is stopped at the first of these Streamlit calls
  that stops it.
\<close>

definition record_step :: "environment \<Rightarrow> step \<Rightarrow> run_state \<Rightarrow> (ending \<times> run_state) + run_state" where
  "record_step env st rs =
     (if stop_clicked_during env st \<and> stops_at_state_read env
      then Inl (Stopped_for_click, rs)
      else if \<not> processing_started (session rs)
      then Inl (Rerun, rs\<lparr> session := (session rs)\<lparr> processing_halted := True \<rparr> \<rparr>)
      else if stage_succeeds env st
      then (if stop_clicked_during env st
            then Inl (Stopped_for_click, record_success env st rs)
            else Inr (record_success env st rs))
      else (if stop_clicked_during env st
            then Inl (Stopped_for_click, rs)
            else Inl (Rerun, rs\<lparr> session := halt_writes (session rs) \<rparr>)))"

definition step_detection :: "environment \<Rightarrow> run_state \<Rightarrow> (ending \<times> run_state) + run_state" where
  "step_detection env rs =
     (if 0 \<notin> set (completed_steps (session rs))
      then record_step env Detection (call_stage Detection rs)
      else Inr rs)"

definition step_extraction :: "environment \<Rightarrow> run_state \<Rightarrow> (ending \<times> run_state) + run_state" where
  "step_extraction env rs =
     (if 0 \<in> set (completed_steps (session rs)) \<and> 1 \<notin> set (completed_steps (session rs))
      then record_step env Extraction (call_stage Extraction rs)
      else Inr rs)"

definition step_validation :: "environment \<Rightarrow> run_state \<Rightarrow> (ending \<times> run_state) + run_state" where
  "step_validation env rs =
     (if 1 \<in> set (completed_steps (session rs)) \<and> 2 \<notin> set (completed_steps (session rs))
      then (if Extraction \<in> set (assigned rs)
            then record_step env Validation (call_stage Validation rs)
            else Inl (Name_error, rs))
      else Inr rs)"

definition step_mapping :: "environment \<Rightarrow> run_state \<Rightarrow> (ending \<times> run_state) + run_state" where
  "step_mapping env rs =
     (if 2 \<in> set (completed_steps (session rs)) \<and> 3 \<notin> set (completed_steps (session rs))
      then (if Validation \<in> set (assigned rs) \<and> Detection \<in> set (assigned rs)
            then record_step env Mapping (call_stage Mapping rs)
            else Inl (Name_error, rs))
      else Inr rs)"

definition all_completed :: "run_state \<Rightarrow> ending \<times> run_state" where
  "all_completed rs =
     (if length (completed_steps (session rs)) = 4
      then (if set (assigned rs) = {Detection, Extraction, Validation, Mapping}
            then (Rerun, rs\<lparr> session := (session rs)\<lparr> processing_completed := True,
                                                      processing_started := False,
                                                      has_processing_results := True \<rparr> \<rparr>)
            else (Name_error, rs\<lparr> session := (session rs)\<lparr> processing_completed := True,
                                                           processing_started := False \<rparr> \<rparr>))
      else (Finished, rs))"

definition then_step ::
  "(ending \<times> run_state) + run_state \<Rightarrow> (run_state \<Rightarrow> (ending \<times> run_state) + run_state) \<Rightarrow>
     (ending \<times> run_state) + run_state" where
  "then_step r f = (case r of Inl e \<Rightarrow> Inl e | Inr rs \<Rightarrow> f rs)"

definition initial_status :: "step \<Rightarrow> bool \<times> rat" where
  "initial_status st = (False, 0)"

text \<open>Lines 513 to 684: the body that runs while processing is started and not completed.\<close>

definition processing_body :: "environment \<Rightarrow> session_state \<Rightarrow> ending \<times> run_state" where
  "processing_body env s0 =
     (let s = (if processing_status s0 = None
               then s0\<lparr> processing_status := Some initial_status \<rparr> else s0);
          rs = \<lparr> session = s, invoked = [], assigned = [] \<rparr>
      in if \<not> processing_started s
         then (Rerun, rs\<lparr> session := s\<lparr> processing_halted := True \<rparr> \<rparr>)
         else (case then_step (then_step (then_step (step_detection env rs)
                       (step_extraction env)) (step_validation env)) (step_mapping env) of
                 Inl e \<Rightarrow> e
               | Inr rs' \<Rightarrow> all_completed rs'))"

text \<open>
  One run of \<^verbatim>\<open>main\<close> with an image uploaded; \<open>click\<close> is the button the user pressed to
  trigger the run, if any.
\<close>

definition main :: "environment \<Rightarrow> click \<Rightarrow> session_state \<Rightarrow> ending \<times> run_state" where
  "main env click s =
     (let idle = \<lparr> session = s, invoked = [], assigned = [] \<rparr> in
      if \<not> processing_started s \<and> \<not> processing_completed s \<and> \<not> processing_halted s
         \<and> click = Click_start
      then (Rerun, idle\<lparr> session := s\<lparr> processing_started := True \<rparr> \<rparr>)
      else if processing_started s \<and> \<not> processing_completed s
      then (if click = Click_stop
            then (Rerun, idle\<lparr> session := halt_writes s \<rparr>)
            else processing_body env s)
      else if processing_halted s
      then (if click = Click_again
            then (Rerun, idle\<lparr> session := s\<lparr> processing_halted := False,
                                              processing_started := True,
                                              processing_completed := False \<rparr> \<rparr>)
            else (Finished, idle))
      else (Finished, idle))"

text \<open>
  \<^verbatim>\<open>st.rerun()\<close> starts the script again at once, with no button pressed; a run stopped
  for a click on Stop is followed by a run with the Stop button pressed. The driver
  follows these runs; \<open>fuel\<close> bounds their number, and the result is the way the last run
  ended and the session state then, together with the stages that were invoked on the way.
\<close>

fun run_script :: "nat \<Rightarrow> environment \<Rightarrow> click \<Rightarrow> session_state \<Rightarrow> (ending \<times> session_state \<times> step list) option" where
  "run_script 0 env click s = None"
| "run_script (Suc fuel) env click s =
     (case main env click s of
        (Rerun, rs) \<Rightarrow>
          map_option (\<lambda>(e, s', steps). (e, s', invoked rs @ steps))
            (run_script fuel env No_click (session rs))
      | (Stopped_for_click, rs) \<Rightarrow>
          map_option (\<lambda>(e, s', steps). (e, s', invoked rs @ steps))
            (run_script fuel env Click_stop (session rs))
      | (e, rs) \<Rightarrow> Some (e, session rs, invoked rs))"

text \<open>
  \<^verbatim>\<open>run_hexagon_validation\<close> reports success when the validation script has left a
  true-hexagons file in the folder (the script itself always exits with status 0).
\<close>

definition run_hexagon_validation :: "folder_output \<Rightarrow> bool" where
  "run_hexagon_validation out = (true_hexagons_file out \<noteq> None)"

definition fresh_session :: session_state where
  "fresh_session =
     \<lparr> processing_started = False, processing_completed = False, processing_halted = False,
       current_step = 0, completed_steps = [], processing_status = None,
       has_processing_results = False \<rparr>"

section \<open>Keys in order of first occurrence, and example data\<close>

text \<open>
  The keys of a list of validated hexagons, each once, in the order in which they first
  occur: the order in which a Python dictionary keeps them.
\<close>

definition first_keys :: "hexagon_info list \<Rightarrow> string list" where
  "first_keys hs = rev (remdups (rev (map key_of hs)))"

text \<open>A validated hexagon as the validation script writes it for a parsed reply.\<close>

definition validated :: "string \<Rightarrow> string \<Rightarrow> string \<Rightarrow> hexagon_info" where
  "validated upper lower file =
     \<lparr> is_hexagon = Some True, upper_line = Some upper, lower_line = Some lower,
       image_file = Some file, confidence = Some (extract_confidence_from_filename file),
       raw_response = None, reason = None \<rparr>"

definition box_a :: bbox where
  "box_a = \<lparr> box_left = 1 / 10, box_top = 1 / 10, box_width = 1 / 10, box_height = 1 / 10 \<rparr>"

definition box_b :: bbox where
  "box_b = \<lparr> box_left = 5 / 10, box_top = 5 / 10, box_width = 1 / 10, box_height = 1 / 10 \<rparr>"

text \<open>A provider response with a low-confidence detection before a high-confidence one.\<close>

definition two_predictions :: "prediction list" where
  "two_predictions =
     [\<lparr> tagName = ''hexagon'', probability = 5 / 10, boundingBox = box_a \<rparr>,
      \<lparr> tagName = ''hexagon'', probability = 9 / 10, boundingBox = box_b \<rparr>]"

text \<open>
  Three detections above the threshold; the box of the second is narrower than a pixel of
  a 1000 by 800 image, so its crop region has no pixels.
\<close>

definition three_response :: provider_response where
  "three_response =
     \<lparr> other_keys = [''id'', ''project''],
       response_predictions = Some
         [\<lparr> tagName = ''hexagon'', probability = 9 / 10, boundingBox = box_a \<rparr>,
          \<lparr> tagName = ''hexagon'', probability = 8 / 10,
             boundingBox = \<lparr> box_left = 3 / 10, box_top = 3 / 10, box_width = 1 / 2000,
                              box_height = 1 / 10 \<rparr> \<rparr>,
          \<lparr> tagName = ''hexagon'', probability = 9 / 10, boundingBox = box_b \<rparr>] \<rparr>"

text \<open>The detection file that the reconciler finds after \<^verbatim>\<open>visualize_detections\<close> has run.\<close>

definition written_record :: "('a \<times> detection_record) option \<Rightarrow> detection_file" where
  "written_record v = (case v of None \<Rightarrow> No_detection_file | Some (boxes, record) \<Rightarrow> Detection_file record)"

definition two_response :: provider_response where
  "two_response = \<lparr> other_keys = [''id'', ''project''], response_predictions = Some two_predictions \<rparr>"

section \<open>Properties of the extractor\<close>

declare str_nat.simps [simp del]

lemma py_int_nonneg: "0 \<le> x \<Longrightarrow> 0 \<le> py_int x"
  by (simp add: py_int_def)

lemma py_int_le_bound: "0 \<le> x \<Longrightarrow> x \<le> of_int n \<Longrightarrow> py_int x \<le> n"
  by (simp add: py_int_def floor_le_iff)

lemma scaled_le: "0 \<le> (c::rat) \<Longrightarrow> c \<le> 1 \<Longrightarrow> 0 \<le> (n::int) \<Longrightarrow> c * of_int n \<le> of_int n"
  by (simp add: mult_left_le_one_le)

text \<open>
  Claim C5, as amended. The box \<open>{left: 0.1, top: 0.2, width: 0.05, height: 0.05}\<close> on a
  1000 by 800 image is the pixel box at (100, 160) of size 50 by 40; the padding is 5
  pixels horizontally and 4 vertically, so the crop region runs from (95, 156) to
  (155, 204). The region from (95, 155) to (155, 215) that the claim names is not what
  the arithmetic gives.
\<close>

theorem crop_example:
  "crop_coords_with (10 / 100)
     \<lparr>box_left = 1 / 10, box_top = 2 / 10, box_width = 5 / 100, box_height = 5 / 100\<rparr> 1000 800
     = (95, 156, 155, 204)
   \<and> crop_coords
     \<lparr>box_left = 1 / 10, box_top = 2 / 10, box_width = 5 / 100, box_height = 5 / 100\<rparr> 1000 800
     = (95, 156, 155, 204)"
  by (simp add: crop_coords_def crop_coords_with_def py_int_def Let_def)

theorem crop_example_counterexample:
  "crop_coords
     \<lparr>box_left = 1 / 10, box_top = 2 / 10, box_width = 5 / 100, box_height = 5 / 100\<rparr> 1000 800
     \<noteq> (95, 155, 155, 215)"
  by (simp add: crop_coords_def crop_coords_with_def py_int_def Let_def)

text \<open>
  Claim C9. The crop rectangle is clamped to the image: its left and top are never
  negative and its right and bottom never exceed the image's width and height, whatever
  the box, the image size and the padding ratio. For a box with coordinates in [0, 1], a
  padding ratio that is not negative and an image of non-negative size the rectangle is
  also well formed: left is at most right and top is at most bottom.
\<close>

theorem crop_clamped:
  "(case crop_coords_with padding_ratio b img_width img_height of
      (crop_left, crop_top, crop_right, crop_bottom) \<Rightarrow>
        0 \<le> crop_left \<and> 0 \<le> crop_top \<and> crop_right \<le> img_width \<and> crop_bottom \<le> img_height \<and>
        (0 \<le> box_left b \<and> box_left b \<le> 1 \<and> 0 \<le> box_top b \<and> box_top b \<le> 1 \<and>
         0 \<le> box_width b \<and> 0 \<le> box_height b \<and>
         0 \<le> padding_ratio \<and> 0 \<le> img_width \<and> 0 \<le> img_height
         \<longrightarrow> crop_left \<le> crop_right \<and> crop_top \<le> crop_bottom))"
proof -
  define left where "left = py_int (box_left b * of_int img_width)"
  define top' where "top' = py_int (box_top b * of_int img_height)"
  define width where "width = py_int (box_width b * of_int img_width)"
  define height where "height = py_int (box_height b * of_int img_height)"
  define px where "px = py_int (of_int width * padding_ratio)"
  define py where "py = py_int (of_int height * padding_ratio)"
  have eq: "crop_coords_with padding_ratio b img_width img_height =
      (max 0 (left - px), max 0 (top' - py), min img_width (left + width + px),
       min img_height (top' + height + py))"
    by (simp add: crop_coords_with_def Let_def left_def top'_def width_def height_def px_def py_def)
  have wf: "max 0 (left - px) \<le> min img_width (left + width + px) \<and>
            max 0 (top' - py) \<le> min img_height (top' + height + py)"
    if h: "0 \<le> box_left b" "box_left b \<le> 1" "0 \<le> box_top b" "box_top b \<le> 1"
       "0 \<le> box_width b" "0 \<le> box_height b" "0 \<le> padding_ratio"
       "0 \<le> img_width" "0 \<le> img_height"
  proof -
    have l0: "0 \<le> left" and t0: "0 \<le> top'" and w0: "0 \<le> width" and h0: "0 \<le> height"
      using h by (simp_all add: left_def top'_def width_def height_def py_int_nonneg)
    have px0: "0 \<le> px" and py0: "0 \<le> py"
      using w0 h0 h by (simp_all add: px_def py_def py_int_nonneg)
    have lW: "left \<le> img_width" unfolding left_def
      using h by (intro py_int_le_bound scaled_le) simp_all
    have tH: "top' \<le> img_height" unfolding top'_def
      using h by (intro py_int_le_bound scaled_le) simp_all
    show ?thesis using l0 t0 w0 h0 px0 py0 lW tH h by simp
  qed
  show ?thesis unfolding eq using wf by simp
qed

theorem crop_clamped_witness:
  "(case crop_coords_with (1 / 10)
           \<lparr>box_left = 9 / 10, box_top = 0, box_width = 1 / 2, box_height = 1 / 10\<rparr> 1000 800 of
      (crop_left, crop_top, crop_right, crop_bottom) \<Rightarrow>
        0 \<le> crop_left \<and> 0 \<le> crop_top \<and> crop_right \<le> 1000 \<and> crop_bottom \<le> 800 \<and>
        crop_left \<le> crop_right \<and> crop_top \<le> crop_bottom)
   \<and> crop_coords_with (1 / 10)
           \<lparr>box_left = 9 / 10, box_top = 0, box_width = 1 / 2, box_height = 1 / 10\<rparr> 1000 800
       = (850, 0, 1000, 88)"
  using crop_clamped [where padding_ratio = "1 / 10" and img_width = 1000 and img_height = 800
      and b = "\<lparr>box_left = 9 / 10, box_top = 0, box_width = 1 / 2, box_height = 1 / 10\<rparr>"]
  by (simp add: crop_coords_with_def py_int_def Let_def)

text \<open>
  The sequence number of an artifact is written into its file name with three digits at
  least; read back as the reconciler reads it, the name gives the same number.
\<close>

lemma below_ten: "d < 10 \<Longrightarrow> d \<in> {0, 1, 2, 3, 4, 5, 6, 7, 8, 9 :: nat}"
  by auto

lemma digit_char_val: "d < 10 \<Longrightarrow> digit_val (digit_char d) = d \<and> is_digit (digit_char d)"
proof -
  assume "d < 10"
  then have "d \<in> {0, 1, 2, 3, 4, 5, 6, 7, 8, 9 :: nat}" by (rule below_ten)
  then show ?thesis
    by (auto simp: digit_char_def digit_val_def is_digit_def)
qed

lemma int_of_digits_snoc: "int_of_digits (s @ [c]) = int_of_digits s * 10 + digit_val c"
  by (simp add: int_of_digits_def)

lemma int_of_digits_str_nat: "int_of_digits (str_nat n) = n"
proof (induction n rule: str_nat.induct)
  case (1 n)
  show ?case
  proof (cases "n < 10")
    case True
    then have "str_nat n = [digit_char n]"
      by (subst str_nat.simps) simp
    then show ?thesis
      using True digit_char_val[of n] by (simp add: int_of_digits_def)
  next
    case False
    then have "int_of_digits (str_nat n) = int_of_digits (str_nat (n div 10)) * 10 + digit_val (digit_char (n mod 10))"
      by (subst str_nat.simps) (simp add: int_of_digits_snoc)
    also have "\<dots> = (n div 10) * 10 + n mod 10"
      using 1[OF False] digit_char_val[of "n mod 10"] by simp
    finally show ?thesis by simp
  qed
qed

lemma digits_str_nat: "c \<in> set (str_nat n) \<Longrightarrow> is_digit c"
proof (induction n rule: str_nat.induct)
  case (1 n)
  show ?case
  proof (cases "n < 10")
    case True
    then show ?thesis
      using "1.prems" digit_char_val[of n] by (subst (asm) str_nat.simps) simp
  next
    case False
    then show ?thesis
      using "1.prems" 1(1)[OF False] digit_char_val[of "n mod 10"]
      by (subst (asm) str_nat.simps) auto
  qed
qed

lemma str_nat_nonempty: "str_nat n \<noteq> []"
  by (subst str_nat.simps) simp

lemma int_of_digits_zeros: "int_of_digits (replicate k (CHR ''0'') @ s) = int_of_digits s"
proof -
  have "foldl (\<lambda>acc c. acc * 10 + digit_val c) 0 (replicate k (CHR ''0'')) = 0"
    by (induction k) (simp_all add: digit_val_def)
  then show ?thesis by (simp add: int_of_digits_def)
qed

lemma is_digit_zero: "is_digit (CHR ''0'')"
  by (simp add: is_digit_def)

lemma fmt_03d_digits:
  "fmt_03d n \<noteq> [] \<and> (\<forall>c \<in> set (fmt_03d n). is_digit c) \<and> int_of_digits (fmt_03d n) = n"
  by (auto simp: fmt_03d_def str_nat_nonempty int_of_digits_zeros int_of_digits_str_nat
        digits_str_nat is_digit_zero)

lemma extract_hexagon_number_prefix:
  assumes "ds \<noteq> []" "\<forall>c \<in> set ds. is_digit c"
  shows "extract_hexagon_number (''hexagon_'' @ ds @ CHR ''_'' # rest) = Some (int_of_digits ds)"
proof -
  have tw: "takeWhile is_digit (ds @ CHR ''_'' # rest) = ds"
    using assms by (simp add: takeWhile_append2 is_digit_def)
  have "extract_hexagon_number (CHR ''h'' # (''exagon_'' @ ds @ CHR ''_'' # rest)) = Some (int_of_digits ds)"
    using tw assms(1) by (simp add: starts_with_def del: takeWhile_append2)
  then show ?thesis by simp
qed

lemma filename_round_trip: "extract_hexagon_number (make_filename i p) = Some (i + 1)"
proof -
  have "make_filename i p = ''hexagon_'' @ fmt_03d (i + 1) @ CHR ''_'' # (''conf_'' @ fmt_percent0 p @ ''.png'')"
    by (simp add: make_filename_def)
  then show ?thesis
    using extract_hexagon_number_prefix[of "fmt_03d (i + 1)"] fmt_03d_digits[of "i + 1"]
    by simp
qed

lemma extract_loop_takeWhile:
  "extract_loop saves w h xs =
     map (extract_one w h)
       (takeWhile (\<lambda>ip. saves (hexagon_filename (extract_one w h ip)) (crop_region (extract_one w h ip))) xs)"
  by (induction xs) (simp_all add: Let_def)

lemma take_enumerate_fst: "m \<le> length xs \<Longrightarrow> map fst (take m (enumerate 0 xs)) = [0 ..< m]"
  by (simp add: take_map[symmetric] take_upt)

lemma take_enumerate_snd: "map snd (take m (enumerate 0 xs)) = take m xs"
  by (simp add: take_map[symmetric])

lemma number_of_extract_one:
  "extract_hexagon_number (hexagon_filename (extract_one w h ip)) = Some (Suc (fst ip))"
  by (cases ip) (simp add: extract_one_def filename_round_trip)

lemma source_of_extract_one: "source_prediction (extract_one w h ip) = snd ip"
  by (cases ip) (simp add: extract_one_def)

text \<open>
  Claim C6, as amended. The extractor writes the sequence number into the file name. The
  numbers of the files it writes are exactly 1, 2, ..., M, and the file with number \<open>i\<close>
  is cut from the \<open>i\<close>-th prediction, in the provider's order, whose probability is at or
  above the threshold. M is the number of survivors before the first one whose crop
  cannot be saved, where the function stops; it is the number N of all survivors when
  every crop can be saved. With three survivors of which the second has a box narrower
  than a pixel, only the file with number 1 is written.
\<close>

theorem written_indices_contiguous:
  "(let survivors = high_confidence_predictions preds confidence_threshold;
        written = extract_hexagons saves
                    (Some \<lparr> other_keys = keys, response_predictions = Some preds \<rparr>)
                    (Some (img_width, img_height)) confidence_threshold;
        m = length (takeWhile
                      (\<lambda>(i, pred). saves (make_filename i (probability pred))
                                       (crop_coords (boundingBox pred) img_width img_height))
                      (enumerate 0 survivors))
    in map (\<lambda>a. extract_hexagon_number (hexagon_filename a)) written = map Some [1 ..< Suc m]
       \<and> map source_prediction written = take m survivors
       \<and> length written = m \<and> m \<le> length survivors)
   \<and> (let survivors = high_confidence_predictions preds confidence_threshold;
          written = extract_hexagons (\<lambda>name region. True)
                      (Some \<lparr> other_keys = keys, response_predictions = Some preds \<rparr>)
                      (Some (img_width, img_height)) confidence_threshold
      in map (\<lambda>a. extract_hexagon_number (hexagon_filename a)) written
           = map Some [1 ..< Suc (length survivors)]
         \<and> map source_prediction written = survivors)
   \<and> high_confidence_predictions preds confidence_threshold
       = filter (\<lambda>pred. confidence_threshold \<le> probability pred) preds"
proof -
  define survivors where "survivors = high_confidence_predictions preds confidence_threshold"
  have general: "map (\<lambda>a. extract_hexagon_number (hexagon_filename a)) (extract_loop sv img_width img_height (enumerate 0 survivors))
           = map Some [1 ..< Suc (length (takeWhile
                      (\<lambda>(i, pred). sv (make_filename i (probability pred))
                                       (crop_coords (boundingBox pred) img_width img_height))
                      (enumerate 0 survivors)))]
         \<and> map source_prediction (extract_loop sv img_width img_height (enumerate 0 survivors))
           = take (length (takeWhile
                      (\<lambda>(i, pred). sv (make_filename i (probability pred))
                                       (crop_coords (boundingBox pred) img_width img_height))
                      (enumerate 0 survivors))) survivors
         \<and> length (extract_loop sv img_width img_height (enumerate 0 survivors))
           = length (takeWhile
                      (\<lambda>(i, pred). sv (make_filename i (probability pred))
                                       (crop_coords (boundingBox pred) img_width img_height))
                      (enumerate 0 survivors))
         \<and> length (takeWhile
                      (\<lambda>(i, pred). sv (make_filename i (probability pred))
                                       (crop_coords (boundingBox pred) img_width img_height))
                      (enumerate 0 survivors)) \<le> length survivors" for sv
  proof -
    define P where "P = (\<lambda>ip. sv (hexagon_filename (extract_one img_width img_height ip))
                              (crop_region (extract_one img_width img_height ip)))"
    define idx where "idx = enumerate 0 survivors"
    define m where "m = length (takeWhile P idx)"
    have P_eq: "P = (\<lambda>(i, pred). sv (make_filename i (probability pred))
                                       (crop_coords (boundingBox pred) img_width img_height))"
      by (rule ext) (simp add: P_def extract_one_def split: prod.splits)
    have m_le: "m \<le> length survivors"
      using length_takeWhile_le[of P idx] by (simp add: m_def idx_def)
    have tw: "takeWhile P idx = take m idx"
      unfolding m_def by (rule takeWhile_eq_take)
    have loop: "extract_loop sv img_width img_height idx = map (extract_one img_width img_height) (take m idx)"
      by (simp add: extract_loop_takeWhile P_def[symmetric] tw)
    have nums: "map (\<lambda>a. extract_hexagon_number (hexagon_filename a)) (extract_loop sv img_width img_height idx)
                  = map Some [1 ..< Suc m]"
    proof -
      have "map (\<lambda>a. extract_hexagon_number (hexagon_filename a)) (extract_loop sv img_width img_height idx)
              = map (\<lambda>ip. Some (Suc (fst ip))) (take m idx)"
        by (simp add: loop number_of_extract_one comp_def)
      also have "\<dots> = map (Some \<circ> Suc) (map fst (take m idx))"
        by (simp add: comp_def)
      also have "map fst (take m idx) = [0 ..< m]"
        unfolding idx_def using m_le by (rule take_enumerate_fst)
      also have "map (Some \<circ> Suc) [0 ..< m] = map Some (map Suc [0 ..< m])"
        by (simp only: map_map)
      also have "map Suc [0 ..< m] = [1 ..< Suc m]"
        by (simp only: map_Suc_upt One_nat_def)
      finally show ?thesis .
    qed
    have srcs: "map source_prediction (extract_loop sv img_width img_height idx) = take m survivors"
    proof -
      have "map source_prediction (extract_loop sv img_width img_height idx) = map snd (take m idx)"
        by (simp add: loop source_of_extract_one comp_def)
      then show ?thesis by (simp only: idx_def take_enumerate_snd)
    qed
    have len: "length (extract_loop sv img_width img_height idx) = m"
    proof -
      have "length (extract_loop sv img_width img_height idx) = length (take m idx)"
        by (simp only: loop length_map)
      also have "\<dots> = m"
        using m_le by (simp add: idx_def)
      finally show ?thesis .
    qed
    show ?thesis
      using nums srcs len m_le unfolding m_def idx_def P_eq by simp
  qed
  have all_true: "length (takeWhile (\<lambda>(i, pred). True) (enumerate 0 survivors)) = length survivors"
  proof -
    have "takeWhile (\<lambda>(i, pred). True) (enumerate 0 survivors) = enumerate 0 survivors"
      by (rule takeWhile_eq_all_conv[THEN iffD2]) simp
    then show ?thesis by (simp only: length_enumerate)
  qed
  show ?thesis
    using general[of saves] general[of "\<lambda>name region. True"] all_true
    by (simp add: extract_hexagons_def Let_def survivors_def[symmetric])
       (simp add: survivors_def high_confidence_predictions_def)
qed

theorem written_indices_counterexample:
  "length (high_confidence_predictions
             (case response_predictions three_response of None \<Rightarrow> [] | Some ps \<Rightarrow> ps) (7 / 10)) = 3
   \<and> map (\<lambda>a. (extract_hexagon_number (hexagon_filename a), crop_region a))
       (extract_hexagons (\<lambda>name. nonempty_region) (Some three_response) (Some (1000, 800)) (7 / 10))
     = [(Some 1, (90, 72, 210, 168))]
   \<and> crop_coords \<lparr> box_left = 3 / 10, box_top = 3 / 10, box_width = 1 / 2000, box_height = 1 / 10 \<rparr> 1000 800
     = (300, 232, 300, 328)"
  by code_simp

section \<open>Properties of the grouping\<close>

lemma hexagon_counts_snoc:
  "hexagon_counts (hs @ [h]) = dict_append (key_of h) h (hexagon_counts hs)"
  by (simp add: hexagon_counts_def)

lemma dict_append_keyed:
  "distinct ks \<Longrightarrow>
   dict_append k h (map (\<lambda>k'. (k', F k')) ks) =
     (if k \<in> set ks
      then map (\<lambda>k'. (k', if k' = k then F k' @ [h] else F k')) ks
      else map (\<lambda>k'. (k', F k')) ks @ [(k, [h])])"
  by (induction ks) auto

lemma first_keys_snoc:
  "first_keys (hs @ [h]) =
     (if key_of h \<in> key_of ` set hs then first_keys hs else first_keys hs @ [key_of h])"
  by (simp add: first_keys_def)

lemma set_first_keys: "set (first_keys hs) = key_of ` set hs"
  by (simp add: first_keys_def)

lemma distinct_first_keys: "distinct (first_keys hs)"
  by (simp add: first_keys_def)

lemma hexagon_counts_eq:
  "hexagon_counts hs = map (\<lambda>k. (k, filter (\<lambda>h. key_of h = k) hs)) (first_keys hs)"
proof (induction hs rule: rev_induct)
  case Nil
  show ?case by (simp add: hexagon_counts_def first_keys_def)
next
  case (snoc h hs)
  have none: "filter (\<lambda>x. key_of x = key_of h) hs = []" if "key_of h \<notin> key_of ` set hs"
  proof -
    have "key_of x \<noteq> key_of h" if "x \<in> set hs" for x
      using that \<open>key_of h \<notin> key_of ` set hs\<close> by (metis imageI)
    then show ?thesis by (simp add: filter_empty_conv)
  qed
  show ?case
  proof (cases "key_of h \<in> key_of ` set hs")
    case True
    then show ?thesis
      using snoc distinct_first_keys[of hs]
      by (simp add: hexagon_counts_snoc first_keys_snoc dict_append_keyed set_first_keys)
  next
    case False
    then show ?thesis
      using snoc distinct_first_keys[of hs] none
      by (simp add: hexagon_counts_snoc first_keys_snoc dict_append_keyed set_first_keys)
        (auto simp: set_first_keys)
  qed
qed

lemma all_instances_of_eq:
  "all_instances_of hs =
     map (\<lambda>k. (k, length (filter (\<lambda>h. key_of h = k) hs), filter (\<lambda>h. key_of h = k) hs))
       (first_keys hs)"
  by (simp add: all_instances_of_def hexagon_counts_eq comp_def)

lemma counts_sum: "sum_list (map (\<lambda>(k, ms). length ms) (dict_append k h d)) = Suc (sum_list (map (\<lambda>(k, ms). length ms) d))"
  by (induction d) auto

lemma hexagon_counts_total: "sum_list (map (\<lambda>(k, ms). length ms) (hexagon_counts hs)) = length hs"
  by (induction hs rule: rev_induct) (simp_all add: hexagon_counts_snoc counts_sum, simp add: hexagon_counts_def)

text \<open>
  Hexagons with the same two lines form one group, and hexagons with pairwise distinct
  keys form one group each.
\<close>

lemma same_lines_one_group:
  "upper_line a = upper_line b \<Longrightarrow> lower_line a = lower_line b \<Longrightarrow>
   all_instances_of [a, b] = [(key_of a, 2, [a, b])]"
  by (simp add: all_instances_of_def hexagon_counts_def key_of_def)

lemma distinct_keys_three_groups:
  "key_of c \<noteq> key_of d \<Longrightarrow> key_of c \<noteq> key_of e \<Longrightarrow> key_of d \<noteq> key_of e \<Longrightarrow>
   all_instances_of [c, d, e] = [(key_of c, 1, [c]), (key_of d, 1, [d]), (key_of e, 1, [e])]"
  by (simp add: all_instances_of_def hexagon_counts_def)

text \<open>
  Claim C7 fails on the code. The groups are keyed by the string made of the upper line,
  a slash and the lower line, and two different pairs of lines can give the same string:
  the pairs (A/, B) and (A, /B) both give \<open>A//B\<close>. For three hexagons whose pairs of lines
  are pairwise distinct the report then has two groups, one of them with count 2, and
  \<^verbatim>\<open>count_duplicate_hexagons\<close> lists the two hexagons as duplicates although their upper
  and lower lines differ.
\<close>

theorem grouping_key_collision:
  "(upper_line (validated ''A/'' ''B'' ''hexagon_001_conf_90%.png''),
    lower_line (validated ''A/'' ''B'' ''hexagon_001_conf_90%.png''))
     \<noteq> (upper_line (validated ''A'' ''/B'' ''hexagon_002_conf_90%.png''),
        lower_line (validated ''A'' ''/B'' ''hexagon_002_conf_90%.png''))
   \<and> map (\<lambda>(key, count, hexagons). (key, count))
       (all_instances_of [validated ''A/'' ''B'' ''hexagon_001_conf_90%.png'',
                          validated ''A'' ''/B'' ''hexagon_002_conf_90%.png'',
                          validated ''C'' ''D'' ''hexagon_003_conf_90%.png''])
     = [(''A//B'', 2), (''C/D'', 1)]
   \<and> count_duplicate_hexagons
       (Some [validated ''A/'' ''B'' ''hexagon_001_conf_90%.png'',
              validated ''A'' ''/B'' ''hexagon_002_conf_90%.png'',
              validated ''C'' ''D'' ''hexagon_003_conf_90%.png''])
     = [(''A//B'', 2, [validated ''A/'' ''B'' ''hexagon_001_conf_90%.png'',
                       validated ''A'' ''/B'' ''hexagon_002_conf_90%.png''])]
   \<and> map_option (\<lambda>out. (unique_combinations (report out), summary (report out)))
       (succeeded (map_true_hexagons_to_image (Some (1000, 800))
          (Some [validated ''A/'' ''B'' ''hexagon_001_conf_90%.png'',
                 validated ''A'' ''/B'' ''hexagon_002_conf_90%.png'',
                 validated ''C'' ''D'' ''hexagon_003_conf_90%.png''])
          No_detection_file True True))
     = Some (2, [(''A//B'', 2), (''C/D'', 1)])"
  by code_simp

section \<open>Properties of the reconciler\<close>

lemma draw_one_for:
  "draw_one dets w h x = Some b \<Longrightarrow>
     drawn_for b = x \<and> (\<exists>n. extract_hexagon_number (get_str (image_file x) []) = Some n)"
  by (auto simp: draw_one_def Let_def split: option.splits)

lemma draw_one_none: "draw_one dets w h x = None \<longleftrightarrow> extract_hexagon_number (get_str (image_file x) []) = None"
  by (auto simp: draw_one_def Let_def split: option.splits)

lemma drawn_for_draw_all:
  "map drawn_for (draw_all dets w h hs) =
     filter (\<lambda>x. extract_hexagon_number (get_str (image_file x) []) \<noteq> None) hs"
  by (induction hs) (auto simp: draw_one_none dest: draw_one_for split: option.splits)

lemma length_draw_all:
  "length (draw_all dets w h hs) =
     length (filter (\<lambda>x. extract_hexagon_number (get_str (image_file x) []) \<noteq> None) hs)"
proof -
  have "length (map drawn_for (draw_all dets w h hs)) =
     length (filter (\<lambda>x. extract_hexagon_number (get_str (image_file x) []) \<noteq> None) hs)"
    by (simp only: drawn_for_draw_all)
  then show ?thesis by simp
qed

lemma map_of_enumerate_from:
  "map_of (map (\<lambda>(i, d). (i, f d)) (enumerate n xs)) k =
     (if n \<le> k \<and> k < n + length xs then Some (f (xs ! (k - n))) else None)"
proof (induction xs arbitrary: n)
  case Nil
  show ?case by simp
next
  case (Cons x xs)
  show ?case
  proof (cases "k = n")
    case True
    then show ?thesis by simp
  next
    case False
    then show ?thesis
      using Cons[of "Suc n"] by (auto simp: nth_Cons')
  qed
qed

text \<open>
  Claim C10. A validated hexagon whose file name holds no \<open>hexagon_<digits>\<close> is skipped
  by the drawing loop: no rectangle is drawn for it and the mapped count stays below the
  number of hexagons. It is still counted: in \<open>total_hexagons\<close>, as a member of the group
  of its key in \<open>all_instances\<close>, and in the count of that key in the summary, whose
  counts add up to the number of hexagons. The call still returns success (the image and
  the report are saved; the detection file is absent or loads).
\<close>

theorem unnumbered_skipped_but_counted:
  "x \<in> set hs \<and> extract_hexagon_number (get_str (image_file x) []) = None \<and>
   det \<noteq> Malformed_detection_file \<longrightarrow>
     (\<exists>out. map_true_hexagons_to_image (Some (w, h)) (Some hs) det True True = Returned_true out \<and>
        x \<notin> set (map drawn_for (drawn out)) \<and>
        map drawn_for (drawn out)
          = filter (\<lambda>y. extract_hexagon_number (get_str (image_file y) []) \<noteq> None) hs \<and>
        mapped_count out = length (drawn out) \<and>
        mapped_count out < length hs \<and>
        total_hexagons (report out) = length hs \<and>
        (key_of x, length (filter (\<lambda>y. key_of y = key_of x) hs), filter (\<lambda>y. key_of y = key_of x) hs)
           \<in> set (all_instances (report out)) \<and>
        x \<in> set (filter (\<lambda>y. key_of y = key_of x) hs) \<and>
        (key_of x, length (filter (\<lambda>y. key_of y = key_of x) hs)) \<in> set (summary (report out)) \<and>
        sum_list (map snd (summary (report out))) = length hs)"
proof (intro impI)
  assume a: "x \<in> set hs \<and> extract_hexagon_number (get_str (image_file x) []) = None \<and>
   det \<noteq> Malformed_detection_file"
  define out where "out = \<lparr> drawn = draw_all (detections_of (loaded_record det)) w h hs,
      mapped_count = length (draw_all (detections_of (loaded_record det)) w h hs),
      report = make_report hs \<rparr>"
  have run: "map_true_hexagons_to_image (Some (w, h)) (Some hs) det True True = Returned_true out"
    using a by (simp add: map_true_hexagons_to_image_def Let_def out_def)
  have d: "map drawn_for (drawn out)
          = filter (\<lambda>y. extract_hexagon_number (get_str (image_file y) []) \<noteq> None) hs"
    by (simp add: out_def drawn_for_draw_all)
  have lt: "mapped_count out < length hs"
  proof -
    have "length (filter (\<lambda>y. extract_hexagon_number (get_str (image_file y) []) \<noteq> None) hs) < length hs"
      using a by (intro length_filter_less[of x]) auto
    then show ?thesis by (simp add: out_def length_draw_all)
  qed
  have kin: "key_of x \<in> set (first_keys hs)"
    using a by (simp add: set_first_keys)
  have inst: "(key_of x, length (filter (\<lambda>y. key_of y = key_of x) hs), filter (\<lambda>y. key_of y = key_of x) hs)
           \<in> set (all_instances (report out))"
    using kin by (auto simp: out_def make_report_def all_instances_of_eq image_iff)
  have summ: "(key_of x, length (filter (\<lambda>y. key_of y = key_of x) hs)) \<in> set (summary (report out))"
    using kin by (auto simp: out_def make_report_def all_instances_of_eq image_iff comp_def)
  have total: "sum_list (map snd (summary (report out))) = length hs"
  proof -
    have "map snd (summary (report out)) = map (\<lambda>(k, ms). length ms) (hexagon_counts hs)"
      by (simp add: out_def make_report_def all_instances_of_def comp_def case_prod_unfold)
    then show ?thesis by (simp add: hexagon_counts_total)
  qed
  show "\<exists>out. map_true_hexagons_to_image (Some (w, h)) (Some hs) det True True = Returned_true out \<and>
        x \<notin> set (map drawn_for (drawn out)) \<and>
        map drawn_for (drawn out)
          = filter (\<lambda>y. extract_hexagon_number (get_str (image_file y) []) \<noteq> None) hs \<and>
        mapped_count out = length (drawn out) \<and>
        mapped_count out < length hs \<and>
        total_hexagons (report out) = length hs \<and>
        (key_of x, length (filter (\<lambda>y. key_of y = key_of x) hs), filter (\<lambda>y. key_of y = key_of x) hs)
           \<in> set (all_instances (report out)) \<and>
        x \<in> set (filter (\<lambda>y. key_of y = key_of x) hs) \<and>
        (key_of x, length (filter (\<lambda>y. key_of y = key_of x) hs)) \<in> set (summary (report out)) \<and>
        sum_list (map snd (summary (report out))) = length hs"
  proof (intro exI[of _ out] conjI)
    show "x \<notin> set (map drawn_for (drawn out))" unfolding d using a by simp
    show "mapped_count out = length (drawn out)" by (simp add: out_def)
    show "total_hexagons (report out) = length hs" by (simp add: out_def make_report_def)
    show "x \<in> set (filter (\<lambda>y. key_of y = key_of x) hs)" using a by simp
  qed (rule run d lt inst summ total)+
qed

theorem unnumbered_skipped_but_counted_witness:
  "extract_hexagon_number ''crop.png'' = None
   \<and> map_option (\<lambda>out. (mapped_count out, map hexagon_number (drawn out),
                         total_hexagons (report out), summary (report out)))
       (succeeded (map_true_hexagons_to_image (Some (1000, 800))
          (Some [validated ''A1'' ''B2'' ''hexagon_001_conf_90%.png'', validated ''A1'' ''B2'' ''crop.png''])
          No_detection_file True True))
     = Some (1, [1], 2, [(''A1/B2'', 2)])"
proof -
  have h: "validated ''A1'' ''B2'' ''crop.png''
             \<in> set [validated ''A1'' ''B2'' ''hexagon_001_conf_90%.png'', validated ''A1'' ''B2'' ''crop.png'']
           \<and> extract_hexagon_number (get_str (image_file (validated ''A1'' ''B2'' ''crop.png'')) []) = None
           \<and> No_detection_file \<noteq> Malformed_detection_file"
    by code_simp
  have e: "extract_hexagon_number ''crop.png'' = None
   \<and> map_option (\<lambda>out. (mapped_count out, map hexagon_number (drawn out),
                         total_hexagons (report out), summary (report out)))
       (succeeded (map_true_hexagons_to_image (Some (1000, 800))
          (Some [validated ''A1'' ''B2'' ''hexagon_001_conf_90%.png'', validated ''A1'' ''B2'' ''crop.png''])
          No_detection_file True True))
     = Some (1, [1], 2, [(''A1/B2'', 2)])"
    by code_simp
  from unnumbered_skipped_but_counted [where x = "validated ''A1'' ''B2'' ''crop.png''"
      and hs = "[validated ''A1'' ''B2'' ''hexagon_001_conf_90%.png'', validated ''A1'' ''B2'' ''crop.png'']"
      and w = 1000 and h = 800 and det = No_detection_file, THEN mp, OF h]
  obtain out where
    "map_true_hexagons_to_image (Some (1000, 800))
       (Some [validated ''A1'' ''B2'' ''hexagon_001_conf_90%.png'', validated ''A1'' ''B2'' ''crop.png''])
       No_detection_file True True = Returned_true out"
    and "mapped_count out < 2" and "total_hexagons (report out) = 2"
    by auto
  with e show ?thesis by simp
qed

text \<open>
  The reconciler looks the number of an artifact up among all the detections of the
  record: for the artifact cut from the \<open>i\<close>-th survivor it takes the box of the \<open>i\<close>-th
  detection of the unfiltered list.
\<close>

lemma written_nth:
  assumes "i < length (extract_loop saves w h (enumerate 0 xs))"
  shows "extract_loop saves w h (enumerate 0 xs) ! i = extract_one w h (i, xs ! i) \<and> i < length xs"
proof -
  define P where "P = (\<lambda>ip. saves (hexagon_filename (extract_one w h ip)) (crop_region (extract_one w h ip)))"
  have eq: "extract_loop saves w h (enumerate 0 xs) = map (extract_one w h) (takeWhile P (enumerate 0 xs))"
    by (simp add: extract_loop_takeWhile P_def)
  have i1: "i < length (takeWhile P (enumerate 0 xs))"
    using assms by (simp add: eq)
  have i2: "i < length xs"
    using i1 length_takeWhile_le[of P "enumerate 0 xs"] by simp
  have "takeWhile P (enumerate 0 xs) ! i = enumerate 0 xs ! i"
    using i1 by (rule takeWhile_nth)
  also have "\<dots> = (i, xs ! i)"
    using i2 by (simp add: nth_enumerate_eq)
  finally show ?thesis
    using i1 i2 by (simp add: eq)
qed

lemma reconciler_box_of_artifact:
  assumes "i < length (extract_hexagons saves
                         (Some \<lparr> other_keys = keys, response_predictions = Some preds \<rparr>)
                         (Some (w, h)) confidence_threshold)"
  shows "source_prediction
           (extract_hexagons saves (Some \<lparr> other_keys = keys, response_predictions = Some preds \<rparr>)
              (Some (w, h)) confidence_threshold ! i)
         = high_confidence_predictions preds confidence_threshold ! i
       \<and> map_option drawn_bbox
           (draw_one (detections_of (Some \<lparr> image_path = path,
                 predictions = \<lparr> other_keys = keys, response_predictions = Some preds \<rparr>,
                 total_detections = n \<rparr>)) width height
              (validated upper lower
                 (hexagon_filename
                    (extract_hexagons saves
                       (Some \<lparr> other_keys = keys, response_predictions = Some preds \<rparr>)
                       (Some (w, h)) confidence_threshold ! i))))
         = Some (boundingBox (preds ! i))"
proof -
  define survivors where "survivors = high_confidence_predictions preds confidence_threshold"
  have ex: "extract_hexagons saves (Some \<lparr> other_keys = keys, response_predictions = Some preds \<rparr>)
              (Some (w, h)) confidence_threshold = extract_loop saves w h (enumerate 0 survivors)"
    by (simp add: extract_hexagons_def survivors_def)
  have nth: "extract_loop saves w h (enumerate 0 survivors) ! i = extract_one w h (i, survivors ! i)"
    and i_s: "i < length survivors"
    using written_nth[of i saves w h survivors] assms by (simp_all add: ex)
  have len: "i < length preds"
  proof -
    have "length survivors \<le> length preds"
      unfolding survivors_def high_confidence_predictions_def by (rule length_filter_le)
    with i_s show ?thesis by linarith
  qed
  have num: "extract_hexagon_number (hexagon_filename (extract_one w h (i, survivors ! i))) = Some (i + 1)"
    by (simp add: number_of_extract_one)
  have box: "resolve_bbox (detections_of (Some \<lparr> image_path = path,
                 predictions = \<lparr> other_keys = keys, response_predictions = Some preds \<rparr>,
                 total_detections = n \<rparr>)) (i + 1) = boundingBox (preds ! i)"
    using len by (simp add: resolve_bbox_def detections_of_def map_of_enumerate_from)
  show ?thesis
    using num box
    by (simp add: ex nth source_of_extract_one draw_one_def validated_def get_str_def Let_def
          survivors_def[symmetric])
qed

text \<open>
  Claim C1 fails on the code. The reconciler numbers every detection of the persisted
  record from 1, whatever its confidence, while the extractor numbers only the detections
  at or above its threshold. So the box drawn for the artifact with sequence index \<open>k\<close> is
  the box of the \<open>k\<close>-th detection of the whole list (or the simplified position when the
  list is shorter), not of the \<open>k\<close>-th survivor. With a detection of confidence 0.5 before
  one of confidence 0.9 and the threshold 0.70, the extractor writes
  \<^verbatim>\<open>hexagon_001_conf_90%.png\<close> from the second detection, and the reconciler draws
  hexagon 1 at the box of the first.
\<close>

theorem mapping_indexes_all_detections:
  "resolve_bbox (detections_of (Some \<lparr> image_path = path,
        predictions = \<lparr> other_keys = keys, response_predictions = Some preds \<rparr>,
        total_detections = n \<rparr>)) k
     = (if 1 \<le> k \<and> k \<le> length preds then boundingBox (preds ! (k - 1))
        else simplified_position k)
   \<and> map (\<lambda>a. (extract_hexagon_number (hexagon_filename a), hexagon_filename a,
                 boundingBox (source_prediction a)))
       (extract_hexagons (\<lambda>name. nonempty_region) (Some two_response) (Some (1000, 800)) (7 / 10))
     = [(Some 1, ''hexagon_001_conf_90%.png'', box_b)]
   \<and> map_option (\<lambda>out. map (\<lambda>d. (hexagon_number d, drawn_bbox d)) (drawn out))
       (succeeded (map_true_hexagons_to_image (Some (1000, 800))
          (Some [validated ''A1'' ''B2'' ''hexagon_001_conf_90%.png''])
          (written_record (visualize_detections (Some (1000, 800)) ''drawing.jpg'' two_response (1 / 2) 4))
          True True))
     = Some [(1, box_a)]
   \<and> box_a \<noteq> box_b"
proof (intro conjI)
  show "resolve_bbox (detections_of (Some \<lparr> image_path = path,
        predictions = \<lparr> other_keys = keys, response_predictions = Some preds \<rparr>,
        total_detections = n \<rparr>)) k
     = (if 1 \<le> k \<and> k \<le> length preds then boundingBox (preds ! (k - 1))
        else simplified_position k)"
    by (auto simp: resolve_bbox_def detections_of_def map_of_enumerate_from)
  show "map (\<lambda>a. (extract_hexagon_number (hexagon_filename a), hexagon_filename a,
                 boundingBox (source_prediction a)))
       (extract_hexagons (\<lambda>name. nonempty_region) (Some two_response) (Some (1000, 800)) (7 / 10))
     = [(Some 1, ''hexagon_001_conf_90%.png'', box_b)]"
    by code_simp
  show "map_option (\<lambda>out. map (\<lambda>d. (hexagon_number d, drawn_bbox d)) (drawn out))
       (succeeded (map_true_hexagons_to_image (Some (1000, 800))
          (Some [validated ''A1'' ''B2'' ''hexagon_001_conf_90%.png''])
          (written_record (visualize_detections (Some (1000, 800)) ''drawing.jpg'' two_response (1 / 2) 4))
          True True))
     = Some [(1, box_a)]"
    by code_simp
  show "box_a \<noteq> box_b"
    by (simp add: box_a_def box_b_def)
qed

section \<open>Properties of annotation and validation\<close>



lemma no_brace_gives_placeholder:
  "find_char (CHR ''{'') content = None \<or> rfind_char (CHR ''}'') content = None \<Longrightarrow>
   extract_info_from_hexagon loads filename (Content content) = Some (raw_placeholder filename content)"
  by (auto simp: extract_info_from_hexagon_def split: option.splits)

lemma decode_error_gives_placeholder:
  "find_char (CHR ''{'') content = Some i \<Longrightarrow> rfind_char (CHR ''}'') content = Some j \<Longrightarrow>
   loads (take (j + 1 - i) (drop i content)) = None \<Longrightarrow>
   extract_info_from_hexagon loads filename (Content content) = Some (raw_placeholder filename content)"
  by (simp add: extract_info_from_hexagon_def Let_def)

lemma placeholder_defaults:
  "get_bool (is_hexagon (raw_placeholder filename content)) True
   \<and> \<not> get_bool (is_hexagon (raw_placeholder filename content)) False
   \<and> raw_response (raw_placeholder filename content) = Some content"
  by (simp add: raw_placeholder_def get_bool_def)

text \<open>
  Claim C3 fails on the code in its last part. A reply that holds no JSON gives the
  placeholder, with the raw text kept, and the placeholder is in the file of all results
  and is printed as a detected hexagon (the missing \<^verbatim>\<open>is_hexagon\<close> key read with the
  default \<^verbatim>\<open>True\<close>). The true-hexagons file, the one handed to the mapping stage, reads the
  same missing key with the default \<^verbatim>\<open>False\<close> and drops the placeholder.
\<close>

theorem placeholder_dropped:
  "process_hexagon_folder loads [''hexagon_001_conf_90%.png''] (\<lambda>f. Content ''A1 over B2'')
     = \<lparr> printed = [Ok_hexagon ''A1 over B2'' []],
         results_file = Some [raw_placeholder ''hexagon_001_conf_90%.png'' ''A1 over B2''],
         true_hexagons_file = Some [] \<rparr>
   \<and> raw_placeholder ''hexagon_001_conf_90%.png'' ''A1 over B2''
     = \<lparr> is_hexagon = None, upper_line = Some ''A1 over B2'', lower_line = Some [],
         image_file = Some ''hexagon_001_conf_90%.png'', confidence = Some ''90%'',
         raw_response = Some ''A1 over B2'', reason = None \<rparr>"
  by (simp add: process_hexagon_folder_def extract_info_from_hexagon_def raw_placeholder_def
        rfind_char_def strip_def is_space_def extract_confidence_from_filename_def starts_with_def
        status_of_def get_bool_def get_str_def Let_def)

section \<open>Properties of the orchestrator\<close>

lemma main_halted_idle:
  "processing_halted s \<Longrightarrow> \<not> processing_started s \<Longrightarrow> click \<noteq> Click_again \<Longrightarrow>
   main env click s = (Finished, \<lparr> session = s, invoked = [], assigned = [] \<rparr>)"
  by (simp add: main_def Let_def)

lemma main_stop_click:
  "processing_started s \<Longrightarrow> \<not> processing_completed s \<Longrightarrow>
   main env Click_stop s = (Rerun, \<lparr> session = halt_writes s, invoked = [], assigned = [] \<rparr>)"
  by (simp add: main_def Let_def)

lemma resume_loses_results:
  assumes "processing_halted s" "\<not> processing_started s" "processing_status s \<noteq> None"
    and "0 \<in> set (completed_steps s)" "1 \<in> set (completed_steps s)" "3 \<notin> set (completed_steps s)"
  shows "run_script (Suc (Suc fuel)) env Click_again s
           = Some (Name_error,
                   s\<lparr> processing_halted := False, processing_started := True,
                      processing_completed := False \<rparr>, [])"
proof -
  define s1 where "s1 = s\<lparr> processing_halted := False, processing_started := True,
                      processing_completed := False \<rparr>"
  have m1: "main env Click_again s = (Rerun, \<lparr> session = s1, invoked = [], assigned = [] \<rparr>)"
    using assms by (simp add: main_def Let_def s1_def)
  have m2: "main env No_click s1 = (Name_error, \<lparr> session = s1, invoked = [], assigned = [] \<rparr>)"
    using assms
    by (auto simp: main_def Let_def s1_def processing_body_def then_step_def step_detection_def
          step_extraction_def step_validation_def step_mapping_def)
  show ?thesis
    using m1 m2 by (simp add: s1_def)
qed

text \<open>
  Claim C8 fails on the code in its last part. Take a run of the script in which the
  Validation stage is invoked, and let the user click Stop while the stage runs. The
  script is stopped after the stage call has returned, the next run takes the Stop branch
  and writes the halted state, and the run after that finds the state halted and invokes
  nothing. So Mapping is not invoked, the state ends halted, and the records of the
  completed steps (\<^verbatim>\<open>completed_steps\<close> and their status) are kept, as the claim says. The
  results of the completed stages are not kept: they are local variables of the run that
  was stopped. When the user clicks the button to start again, the script skips the
  stages recorded as completed, reads the result of one of them, which the new run never
  assigned, and ends with an error before it invokes any stage.
\<close>

theorem stop_during_validation:
  assumes started: "processing_started s" "\<not> processing_completed s"
    and click: "click \<noteq> Click_stop"
    and cs: "1 \<notin> set (completed_steps s)" "2 \<notin> set (completed_steps s)"
            "3 \<notin> set (completed_steps s)"
    and det: "0 \<in> set (completed_steps s) \<or>
              (stage_succeeds env Detection \<and> \<not> stop_clicked_during env Detection)"
    and ext: "stage_succeeds env Extraction" "\<not> stop_clicked_during env Extraction"
    and stop: "stop_clicked_during env Validation"
  shows "\<exists>s' steps.
           run_script (Suc (Suc (Suc fuel))) env click s = Some (Finished, s', steps) \<and>
           Validation \<in> set steps \<and> Mapping \<notin> set steps \<and>
           processing_halted s' \<and> \<not> processing_started s' \<and> \<not> processing_completed s' \<and>
           3 \<notin> set (completed_steps s') \<and>
           set (completed_steps s) \<union> {0, 1} \<subseteq> set (completed_steps s') \<and>
           (\<forall>g st. processing_status s = Some g \<and> fst (g st) \<longrightarrow>
              (\<exists>f. processing_status s' = Some f \<and> fst (f st))) \<and>
           (\<exists>f. processing_status s' = Some f \<and> fst (f Extraction)) \<and>
           (\<forall>env' click'. click' \<noteq> Click_again \<longrightarrow>
              main env' click' s' = (Finished, \<lparr> session = s', invoked = [], assigned = [] \<rparr>)) \<and>
           (\<forall>env' fuel'. run_script (Suc (Suc fuel')) env' Click_again s'
              = Some (Name_error,
                      s'\<lparr> processing_halted := False, processing_started := True,
                         processing_completed := False \<rparr>, []))"
proof -
  obtain rs where body: "processing_body env s = (Stopped_for_click, rs)"
    and inv: "Validation \<in> set (invoked rs)" "Mapping \<notin> set (invoked rs)"
    and st: "processing_started (session rs)" "\<not> processing_completed (session rs)"
    and comp: "3 \<notin> set (completed_steps (session rs))"
       "set (completed_steps s) \<union> {0, 1} \<subseteq> set (completed_steps (session rs))"
    and keep: "\<forall>g st. processing_status s = Some g \<and> fst (g st) \<longrightarrow>
              (\<exists>f. processing_status (session rs) = Some f \<and> fst (f st))"
    and extr: "\<exists>f. processing_status (session rs) = Some f \<and> fst (f Extraction)"
  proof (cases "0 \<in> set (completed_steps s)")
    case True
    show ?thesis
      by (rule that[of "snd (processing_body env s)"])
         (use True started cs ext stop in
           \<open>auto simp: processing_body_def Let_def then_step_def step_detection_def
              step_extraction_def step_validation_def step_mapping_def record_step_def
              record_success_def call_stage_def halt_writes_def step_index_def\<close>)
  next
    case False
    show ?thesis
      by (rule that[of "snd (processing_body env s)"])
         (use False started cs ext stop det in
           \<open>auto simp: processing_body_def Let_def then_step_def step_detection_def
              step_extraction_def step_validation_def step_mapping_def record_step_def
              record_success_def call_stage_def halt_writes_def step_index_def\<close>)
  qed
  define s' where "s' = halt_writes (session rs)"
  have m1: "main env click s = (Stopped_for_click, rs)"
    using started click body by (simp add: main_def Let_def)
  have m2: "main env Click_stop (session rs) = (Rerun, \<lparr> session = s', invoked = [], assigned = [] \<rparr>)"
    using st by (simp add: main_stop_click s'_def)
  have s'_flags: "processing_halted s'" "\<not> processing_started s'" "\<not> processing_completed s'"
    and s'_steps: "completed_steps s' = completed_steps (session rs)"
    and s'_status: "processing_status s' = processing_status (session rs)"
    by (simp_all add: s'_def halt_writes_def)
  have idle: "main env' click' s' = (Finished, \<lparr> session = s', invoked = [], assigned = [] \<rparr>)"
    if "click' \<noteq> Click_again" for env' click'
    using s'_flags that by (simp add: main_halted_idle)
  have run: "run_script (Suc (Suc (Suc fuel))) env click s = Some (Finished, s', invoked rs)"
    using m1 m2 idle[of No_click env] by simp
  have resume: "run_script (Suc (Suc fuel')) env' Click_again s'
              = Some (Name_error,
                      s'\<lparr> processing_halted := False, processing_started := True,
                         processing_completed := False \<rparr>, [])" for env' fuel'
  proof (rule resume_loses_results)
    show "processing_halted s'" "\<not> processing_started s'" by (rule s'_flags)+
    show "processing_status s' \<noteq> None" using extr by (auto simp: s'_status)
    show "0 \<in> set (completed_steps s')" "1 \<in> set (completed_steps s')"
      using comp(2) by (auto simp: s'_steps)
    show "3 \<notin> set (completed_steps s')" using comp(1) by (simp add: s'_steps)
  qed
  show ?thesis
  proof (intro exI[of _ s'] exI[of _ "invoked rs"] conjI)
    show "run_script (Suc (Suc (Suc fuel))) env click s = Some (Finished, s', invoked rs)" by (rule run)
    show "Validation \<in> set (invoked rs)" "Mapping \<notin> set (invoked rs)" by (rule inv)+
    show "processing_halted s'" "\<not> processing_started s'" "\<not> processing_completed s'" by (rule s'_flags)+
    show "3 \<notin> set (completed_steps s')" using comp(1) by (simp add: s'_steps)
    show "set (completed_steps s) \<union> {0, 1} \<subseteq> set (completed_steps s')"
      using comp(2) by (simp add: s'_steps)
    show "\<forall>g st. processing_status s = Some g \<and> fst (g st) \<longrightarrow>
              (\<exists>f. processing_status s' = Some f \<and> fst (f st))"
      using keep by (simp add: s'_status)
    show "\<exists>f. processing_status s' = Some f \<and> fst (f Extraction)"
      using extr by (simp add: s'_status)
    show "\<forall>env' click'. click' \<noteq> Click_again \<longrightarrow>
              main env' click' s' = (Finished, \<lparr> session = s', invoked = [], assigned = [] \<rparr>)"
      using idle by blast
    show "\<forall>env' fuel'. run_script (Suc (Suc fuel')) env' Click_again s'
              = Some (Name_error,
                      s'\<lparr> processing_halted := False, processing_started := True,
                         processing_completed := False \<rparr>, [])"
      using resume by blast
  qed
qed


theorem stop_during_validation_witness:
  "run_script 3
     \<lparr> stage_succeeds = (\<lambda>st. True), stage_time = (\<lambda>st. 1),
       stop_clicked_during = (\<lambda>st. st = Validation), stops_at_state_read = False \<rparr>
     No_click (fresh_session\<lparr> processing_started := True \<rparr>)
   = Some (Finished,
       fresh_session\<lparr> processing_halted := True,
          completed_steps := [0, 1, 2],
          processing_status := Some (initial_status (Detection := (True, 1),
             Extraction := (True, 1), Validation := (True, 1))) \<rparr>,
       [Detection, Extraction, Validation])
   \<and> run_script 2
       \<lparr> stage_succeeds = (\<lambda>st. True), stage_time = (\<lambda>st. 1),
         stop_clicked_during = (\<lambda>st. False), stops_at_state_read = False \<rparr>
       Click_again
       (fresh_session\<lparr> processing_halted := True,
          completed_steps := [0, 1, 2],
          processing_status := Some (initial_status (Detection := (True, 1),
             Extraction := (True, 1), Validation := (True, 1))) \<rparr>)
     = Some (Name_error,
         fresh_session\<lparr> processing_started := True,
            completed_steps := [0, 1, 2],
            processing_status := Some (initial_status (Detection := (True, 1),
               Extraction := (True, 1), Validation := (True, 1))) \<rparr>,
         [])"
  using stop_during_validation [of "fresh_session\<lparr> processing_started := True \<rparr>" No_click
      "\<lparr> stage_succeeds = (\<lambda>st. True), stage_time = (\<lambda>st. 1),
         stop_clicked_during = (\<lambda>st. st = Validation), stops_at_state_read = False \<rparr>" 0]
  by (simp add: fresh_session_def main_def Let_def processing_body_def then_step_def step_detection_def
              step_extraction_def step_validation_def step_mapping_def record_step_def
              record_success_def call_stage_def halt_writes_def step_index_def
              numeral_2_eq_2 numeral_3_eq_3)

lemma no_survivors_no_files:
  "high_confidence_predictions preds confidence_threshold = [] \<Longrightarrow>
   extract_hexagons saves (Some \<lparr> other_keys = keys, response_predictions = Some preds \<rparr>) opened
     confidence_threshold = []"
  by (simp add: extract_hexagons_def split: option.splits)

lemma empty_folder_fails_validation:
  "\<not> run_hexagon_validation (process_hexagon_folder loads [] reply)"
  by (simp add: run_hexagon_validation_def process_hexagon_folder_def)

text \<open>
  Claim C2, as amended. A call of the reconciler with an empty list of validated hexagons
  does not fail on that account: when the image opens and can be saved, the detection
  file is absent or loads, and the report can be written, the call returns success and
  writes the image, with no rectangle, and an instance report with a total of 0 and no
  groups. A run in which no detection reaches the extraction threshold is halted, not
  completed, and it is halted at the Validation stage: the extractor writes no file, the
  validation script then writes no true-hexagons file, and Mapping is not invoked.
\<close>

theorem empty_validation_succeeds:
  "(det \<noteq> Malformed_detection_file \<longrightarrow>
      map_true_hexagons_to_image (Some (w, h)) (Some []) det True True
        = Returned_true \<lparr>drawn = [], mapped_count = 0,
             report = \<lparr>total_hexagons = 0, unique_combinations = 0, all_instances = [],
                        duplicates = [], summary = []\<rparr>\<rparr>)
   \<and> (processing_started s \<and> \<not> processing_completed s \<and> completed_steps s = [] \<and>
      click \<noteq> Click_stop \<and>
      stage_succeeds env Detection \<and> stage_succeeds env Extraction \<and>
      \<not> stop_clicked_during env Detection \<and> \<not> stop_clicked_during env Extraction \<and>
      \<not> stop_clicked_during env Validation \<and>
      high_confidence_predictions preds confidence_threshold = [] \<and>
      stage_succeeds env Validation
        = run_hexagon_validation
            (process_hexagon_folder loads
               (map hexagon_filename
                  (extract_hexagons saves
                     (Some \<lparr> other_keys = keys, response_predictions = Some preds \<rparr>) opened
                     confidence_threshold))
               reply)
      \<longrightarrow> (\<exists>s'. run_script (Suc (Suc fuel)) env click s
                   = Some (Finished, s', [Detection, Extraction, Validation]) \<and>
                 processing_halted s' \<and> \<not> processing_started s' \<and> \<not> processing_completed s' \<and>
                 completed_steps s' = [0, 1]))"
proof (intro conjI impI)
  assume "det \<noteq> Malformed_detection_file"
  then show "map_true_hexagons_to_image (Some (w, h)) (Some []) det True True
        = Returned_true \<lparr>drawn = [], mapped_count = 0,
             report = \<lparr>total_hexagons = 0, unique_combinations = 0, all_instances = [],
                        duplicates = [], summary = []\<rparr>\<rparr>"
    by (simp add: map_true_hexagons_to_image_def make_report_def all_instances_of_def
        duplicates_of_def hexagon_counts_def Let_def)
next
  assume a: "processing_started s \<and> \<not> processing_completed s \<and> completed_steps s = [] \<and>
      click \<noteq> Click_stop \<and>
      stage_succeeds env Detection \<and> stage_succeeds env Extraction \<and>
      \<not> stop_clicked_during env Detection \<and> \<not> stop_clicked_during env Extraction \<and>
      \<not> stop_clicked_during env Validation \<and>
      high_confidence_predictions preds confidence_threshold = [] \<and>
      stage_succeeds env Validation
        = run_hexagon_validation
            (process_hexagon_folder loads
               (map hexagon_filename
                  (extract_hexagons saves
                     (Some \<lparr> other_keys = keys, response_predictions = Some preds \<rparr>) opened
                     confidence_threshold))
               reply)"
  have fails: "\<not> stage_succeeds env Validation"
    using a by (simp add: no_survivors_no_files empty_folder_fails_validation)
  obtain rs where body: "processing_body env s = (Rerun, rs)"
    and inv: "invoked rs = [Detection, Extraction, Validation]"
    and st: "processing_halted (session rs)" "\<not> processing_started (session rs)"
       "\<not> processing_completed (session rs)"
    and comp: "completed_steps (session rs) = [0, 1]"
    by (rule that[of "snd (processing_body env s)"])
       (use a fails in
           \<open>simp_all add: processing_body_def Let_def then_step_def step_detection_def
              step_extraction_def step_validation_def step_mapping_def record_step_def
              record_success_def call_stage_def halt_writes_def step_index_def\<close>)
  have m: "main env click s = (Rerun, rs)"
    using a body by (simp add: main_def Let_def)
  have "main env No_click (session rs) = (Finished, \<lparr> session = session rs, invoked = [], assigned = [] \<rparr>)"
    using st by (simp add: main_halted_idle)
  then have "run_script (Suc (Suc fuel)) env click s = Some (Finished, session rs, invoked rs)"
    using m by simp
  then show "\<exists>s'. run_script (Suc (Suc fuel)) env click s
                   = Some (Finished, s', [Detection, Extraction, Validation]) \<and>
                 processing_halted s' \<and> \<not> processing_started s' \<and> \<not> processing_completed s' \<and>
                 completed_steps s' = [0, 1]"
    using inv st comp by simp
qed

theorem empty_validation_succeeds_witness:
  "run_script 2
     \<lparr> stage_succeeds = (\<lambda>st. st \<noteq> Validation), stage_time = (\<lambda>st. 1),
       stop_clicked_during = (\<lambda>st. False), stops_at_state_read = False \<rparr>
     No_click (fresh_session\<lparr> processing_started := True \<rparr>)
   = Some (Finished,
       fresh_session\<lparr> processing_halted := True,
          completed_steps := [0, 1],
          processing_status := Some (initial_status (Detection := (True, 1), Extraction := (True, 1))) \<rparr>,
       [Detection, Extraction, Validation])
   \<and> high_confidence_predictions two_predictions (95 / 100) = []
   \<and> map_true_hexagons_to_image (Some (1000, 800)) (Some []) No_detection_file True True
       = Returned_true \<lparr>drawn = [], mapped_count = 0,
             report = \<lparr>total_hexagons = 0, unique_combinations = 0, all_instances = [],
                        duplicates = [], summary = []\<rparr>\<rparr>"
  using empty_validation_succeeds [where s = "fresh_session\<lparr> processing_started := True \<rparr>"
      and click = No_click and fuel = 0 and loads = "\<lambda>s. None" and reply = "\<lambda>f. NoChoices"
      and preds = two_predictions and confidence_threshold = "95 / 100" and keys = "[]"
      and saves = "\<lambda>name. nonempty_region" and opened = "Some (1000, 800)"
      and det = No_detection_file and w = 1000 and h = 800
      and env = "\<lparr> stage_succeeds = (\<lambda>st. st \<noteq> Validation), stage_time = (\<lambda>st. 1),
         stop_clicked_during = (\<lambda>st. False), stops_at_state_read = False \<rparr>"]
  by (simp add: fresh_session_def main_def Let_def processing_body_def then_step_def step_detection_def
              step_extraction_def step_validation_def step_mapping_def record_step_def
              record_success_def call_stage_def halt_writes_def step_index_def numeral_2_eq_2
              run_hexagon_validation_def process_hexagon_folder_def extract_hexagons_def
              high_confidence_predictions_def two_predictions_def)

theorem empty_validation_counterexample:
  "map_true_hexagons_to_image (Some (1000, 800)) (Some []) No_detection_file True True
     = Returned_true \<lparr>drawn = [], mapped_count = 0,
          report = \<lparr>total_hexagons = 0, unique_combinations = 0, all_instances = [],
                     duplicates = [], summary = []\<rparr>\<rparr>
   \<and> map_option (\<lambda>(e, s', steps). (e, processing_halted s', steps))
       (run_script 2
          \<lparr> stage_succeeds =
              (\<lambda>st. st \<noteq> Validation \<or>
                    run_hexagon_validation
                      (process_hexagon_folder (\<lambda>s. None)
                         (map hexagon_filename
                            (extract_hexagons (\<lambda>name. nonempty_region)
                               (Some \<lparr> other_keys = [], response_predictions = Some [] \<rparr>)
                               (Some (1000, 800)) (7 / 10)))
                         (\<lambda>f. NoChoices))),
            stage_time = (\<lambda>st. 1), stop_clicked_during = (\<lambda>st. False),
            stops_at_state_read = False \<rparr>
          No_click (fresh_session\<lparr> processing_started := True \<rparr>))
     = Some (Finished, True, [Detection, Extraction, Validation])"
  by (simp add: fresh_session_def main_def Let_def processing_body_def then_step_def step_detection_def
              step_extraction_def step_validation_def step_mapping_def record_step_def
              record_success_def call_stage_def halt_writes_def step_index_def numeral_2_eq_2
              run_hexagon_validation_def process_hexagon_folder_def extract_hexagons_def
              high_confidence_predictions_def map_true_hexagons_to_image_def make_report_def
              all_instances_of_def duplicates_of_def hexagon_counts_def loaded_record_def
              detections_of_def)

end
